theory Spec2Isabelle
  imports Complex_Main
begin

section \<open>Floating-point values\<close>

text \<open>
  \<open>value_type\<close> is the C++ \<open>float\<close>. A value is NaN, an infinity or a finite
  number; finite numbers carry a real payload. The comparisons below are the IEEE ones:
  every ordered comparison with NaN is false. The rounded operations (\<open>+\<close>, \<open>*\<close>,
  \<open>/\<close>, \<open>acos\<close>, \<open>pow\<close>, ...) are not fixed here: they are fields of the
  environment record \<open>Env\<close>, so every theorem holds whatever their rounding is.
\<close>

datatype value_type = NaN | NegInf | Fin real | PosInf

fun isnan :: "value_type \<Rightarrow> bool" where
  "isnan NaN = True"
| "isnan _ = False"

text \<open>The C library's \<open>finite\<close>: neither NaN nor an infinity.\<close>

fun finite_val :: "value_type \<Rightarrow> bool" where
  "finite_val (Fin _) = True"
| "finite_val _ = False"

text \<open>\<open>a < b\<close> on floats.\<close>

fun fless :: "value_type \<Rightarrow> value_type \<Rightarrow> bool" where
  "fless NaN _ = False"
| "fless _ NaN = False"
| "fless NegInf NegInf = False"
| "fless NegInf _ = True"
| "fless (Fin a) (Fin b) = (a < b)"
| "fless (Fin _) PosInf = True"
| "fless (Fin _) NegInf = False"
| "fless PosInf _ = False"

text \<open>\<open>a > b\<close> on floats.\<close>

definition fgreater :: "value_type \<Rightarrow> value_type \<Rightarrow> bool" where
  "fgreater a b = fless b a"

text \<open>\<open>if (x)\<close> on a float: true unless \<open>x\<close> compares equal to zero, so NaN is true.\<close>

fun truthy :: "value_type \<Rightarrow> bool" where
  "truthy (Fin x) = (x \<noteq> 0)"
| "truthy _ = True"

text \<open>\<open>std::min (a, b)\<close> returns \<open>b\<close> when \<open>b < a\<close> and \<open>a\<close> otherwise.\<close>

definition std_min :: "value_type \<Rightarrow> value_type \<Rightarrow> value_type" where
  "std_min a b = (if fless b a then b else a)"

text \<open>
  Modelled from the spec: the macro \<open>MAX\<close> is declared outside the given sources; the
  spec reads it as the maximum of its two arguments, taken here as the usual
  \<open>(a) > (b) ? (a) : (b)\<close>.
\<close>

definition MAX_macro :: "value_type \<Rightarrow> value_type \<Rightarrow> value_type" where
  "MAX_macro a b = (if fgreater a b then a else b)"

section \<open>Points\<close>

text \<open>
  \<open>Point<value_type>\<close>: three floats. The class is declared in \<open>point.h\<close>, outside
  the given sources; its \<open>+\<close>, \<open>-\<close> and scalar \<open>*\<close> are taken componentwise below,
  its \<open>dot\<close> and \<open>normalise\<close> are fields of the environment.
\<close>

datatype Point = Point value_type value_type value_type

type_synonym size_t = nat

text \<open>
  \<open>size_t\<close> is a 64-bit unsigned integer, kept as a \<open>nat\<close> with the wrap-around
  written out where the source subtracts or accumulates.
\<close>

definition size_max :: nat where
  "size_max = 2 ^ 64"

text \<open>\<open>n - 1\<close> on \<open>size_t\<close>: wraps to \<open>2^64 - 1\<close> at \<open>n = 0\<close>.\<close>

definition size_pred :: "size_t \<Rightarrow> size_t" where
  "size_pred n = (n + (size_max - 1)) mod size_max"

definition size_add :: "size_t \<Rightarrow> size_t \<Rightarrow> size_t" where
  "size_add a b = (a + b) mod size_max"

section \<open>Environment: arithmetic and external collaborators\<close>

text \<open>
  Everything \<open>iFOD2.h\<close> calls but does not define: the rounded float operations, the
  \<open>Point\<close> operations that combine components (\<open>dot\<close>, \<open>normalise\<close>), the image
  access of \<open>MethodBase\<close> (\<open>get_data\<close>), the spherical-harmonic evaluation, and the
  random number generator, whose state has type \<open>'r\<close>.
  \<open>get_data E p\<close> is the coefficient vector fetched at position \<open>p\<close>, or
  \<open>None\<close> when \<open>get_data (p)\<close> returns false.

  Two fields stand for what the compiler decides. \<open>arg_order E a b c\<close> is the point
  that \<open>dir.set (rng.normal (), rng.normal (), rng.normal ())\<close> receives when \<open>a\<close>,
  \<open>b\<close>, \<open>c\<close> are the first, second and third number drawn: C++ leaves the order in
  which the three arguments are evaluated open, so it is \<open>Point a b c\<close> when they are
  evaluated from left to right and \<open>Point c b a\<close> from right to left.
  \<open>read_back E path n i\<close> is the pair \<open>(positions[i], tangents[i])\<close> read from the two
  arrays of \<open>n\<close> elements after the sequence \<open>path\<close> of more than \<open>n\<close> pairs has
  been stored through pointers into them: the stores past the end land on whatever
  the stack frame holds there, possibly on the arrays themselves.
\<close>

record 'r Env =
  fadd :: "value_type \<Rightarrow> value_type \<Rightarrow> value_type"
  fsub :: "value_type \<Rightarrow> value_type \<Rightarrow> value_type"
  fmul :: "value_type \<Rightarrow> value_type \<Rightarrow> value_type"
  fdiv :: "value_type \<Rightarrow> value_type \<Rightarrow> value_type"
  facos :: "value_type \<Rightarrow> value_type"
  fcos :: "value_type \<Rightarrow> value_type"
  fsin :: "value_type \<Rightarrow> value_type"
  fpow :: "value_type \<Rightarrow> size_t \<Rightarrow> value_type"
  of_size :: "size_t \<Rightarrow> value_type"
  dot :: "Point \<Rightarrow> Point \<Rightarrow> value_type"
  normalise :: "Point \<Rightarrow> Point"
  get_data :: "Point \<Rightarrow> value_type list option"
  SH_value :: "value_type list \<Rightarrow> Point \<Rightarrow> size_t \<Rightarrow> value_type"
  random_direction :: "'r \<Rightarrow> Point \<Rightarrow> value_type \<Rightarrow> value_type \<Rightarrow> Point \<times> 'r"
  rng_uniform :: "'r \<Rightarrow> value_type \<times> 'r"
  rng_normal :: "'r \<Rightarrow> value_type \<times> 'r"
  arg_order :: "value_type \<Rightarrow> value_type \<Rightarrow> value_type \<Rightarrow> Point"
  read_back :: "(Point \<times> Point) list \<Rightarrow> nat \<Rightarrow> nat \<Rightarrow> Point \<times> Point"

text \<open>Componentwise \<open>Point\<close> arithmetic: \<open>a + b\<close>, \<open>a - b\<close> and \<open>f * a\<close>.\<close>

fun padd :: "'r Env \<Rightarrow> Point \<Rightarrow> Point \<Rightarrow> Point" where
  "padd E (Point a b c) (Point x y z) = Point (fadd E a x) (fadd E b y) (fadd E c z)"

fun psub :: "'r Env \<Rightarrow> Point \<Rightarrow> Point \<Rightarrow> Point" where
  "psub E (Point a b c) (Point x y z) = Point (fsub E a x) (fsub E b y) (fsub E c z)"

fun pscale :: "'r Env \<Rightarrow> value_type \<Rightarrow> Point \<Rightarrow> Point" where
  "pscale E f (Point x y z) = Point (fmul E f x) (fmul E f y) (fmul E f z)"

section \<open>The iFOD2 method\<close>

text \<open>
  Modelled from the spec: \<open>SharedBase\<close> is declared outside the given sources. Of its
  fields the method reads \<open>max_angle\<close>, \<open>step_size\<close>, \<open>threshold\<close>,
  \<open>init_threshold\<close> and \<open>init_dir\<close>, the optional fixed initial direction of the
  spec's shared configuration: the test \<open>!S.init_dir\<close> of the source holds when none is
  configured. The other fields are those of \<open>iFOD2::Shared\<close>; its constructor sets
  \<open>num_samples\<close> to 1 and \<open>max_trials\<close> to 100 unless the properties give other
  values, and \<open>prob_threshold\<close> to \<open>pow (threshold, num_samples)\<close>. \<open>precomputer\<close>
  is the precomputed evaluation when it has been initialised.
\<close>

record Shared =
  lmax :: size_t
  num_samples :: size_t
  max_trials :: size_t
  sin_max_angle :: value_type
  prob_threshold :: value_type
  max_angle :: value_type
  step_size :: value_type
  threshold :: value_type
  init_threshold :: value_type
  init_dir :: "Point option"
  precomputer :: "(value_type list \<Rightarrow> Point \<Rightarrow> value_type) option"

text \<open>
  The tracker's state: \<open>pos\<close>, \<open>dir\<close>, \<open>values\<close> and \<open>rng\<close> are members of
  \<open>MethodBase\<close>, the others of \<open>iFOD2\<close>. \<open>trials\<close> is bookkeeping of the model
  only: it counts the calls of \<open>rand_path_prob\<close>, so that the work of one step can be
  stated; no function below reads it.
\<close>

record 'r iFOD2 =
  pos :: Point
  dir :: Point
  "values" :: "value_type list"
  rng :: 'r
  prev_prob_val :: value_type
  mean_sample_num :: size_t
  num_sample_runs :: size_t
  trials :: nat

text \<open>\<open>FOD (direction)\<close>: the amplitude of the coefficients last fetched.\<close>

definition FOD :: "'r Env \<Rightarrow> Shared \<Rightarrow> 'r iFOD2 \<Rightarrow> Point \<Rightarrow> value_type" where
  "FOD E S st direction =
     (case precomputer S of
        Some pre \<Rightarrow> pre (values st) direction
      | None \<Rightarrow> SH_value E (values st) direction (lmax S))"

text \<open>\<open>FOD (position, direction)\<close>: NaN where no data can be fetched.\<close>

definition FOD_at :: "'r Env \<Rightarrow> Shared \<Rightarrow> 'r iFOD2 \<Rightarrow> Point \<Rightarrow> Point \<Rightarrow> value_type \<times> 'r iFOD2" where
  "FOD_at E S st position direction =
     (case get_data E position of
        None \<Rightarrow> (NaN, st)
      | Some v \<Rightarrow> (let st' = st\<lparr>values := v\<rparr> in (FOD E S st' direction, st')))"

definition rand_dir :: "'r Env \<Rightarrow> Shared \<Rightarrow> 'r \<Rightarrow> Point \<Rightarrow> Point \<times> 'r" where
  "rand_dir E S r d = random_direction E r d (max_angle S) (sin_max_angle S)"

text \<open>
  \<open>get_path\<close> stores through the two advancing pointers \<open>positions++\<close> and
  \<open>tangents++\<close>, which start at index 0 of the caller's buffers. The model returns the
  sequence of stored pairs in order: its \<open>k\<close>-th element is what was stored at index
  \<open>k\<close> of \<open>positions\<close> and of \<open>tangents\<close>. The buffers have \<open>num_samples\<close>
  elements, so a sequence longer than that has stored past their end.
\<close>

definition arc_sample :: "'r Env \<Rightarrow> Shared \<Rightarrow> 'r iFOD2 \<Rightarrow> value_type \<Rightarrow> Point \<Rightarrow> value_type \<Rightarrow> nat \<Rightarrow> Point \<times> Point" where
  "arc_sample E S st theta curv R i =
     (let a = fdiv E (fmul E theta (of_size E (i + 1))) (of_size E (num_samples S));
          cos_a = fcos E a;
          sin_a = fsin E a
      in (padd E (pos st)
            (pscale E R (padd E (pscale E sin_a (dir st))
                                (pscale E (fsub E (Fin 1) cos_a) curv))),
          padd E (pscale E cos_a (dir st)) (pscale E sin_a curv)))"

definition straight_sample :: "'r Env \<Rightarrow> Shared \<Rightarrow> 'r iFOD2 \<Rightarrow> nat \<Rightarrow> Point \<times> Point" where
  "straight_sample E S st i =
     (let f = fmul E (of_size E (i + 1)) (fdiv E (step_size S) (of_size E (num_samples S)))
      in (padd E (pos st) (pscale E f (dir st)), dir st))"

text \<open>The angle between the current direction and the end direction drawn for the path.\<close>

definition path_angle :: "'r Env \<Rightarrow> Point \<Rightarrow> Point \<Rightarrow> value_type \<times> value_type" where
  "path_angle E end_dir d =
     (let cos_theta = dot E end_dir d;
          cos_theta = std_min cos_theta (Fin 1);
          theta = facos E cos_theta
      in (cos_theta, theta))"

definition get_path :: "'r Env \<Rightarrow> Shared \<Rightarrow> 'r iFOD2 \<Rightarrow> (Point \<times> Point) list \<times> 'r iFOD2" where
  "get_path E S st =
     (case rand_dir E S (rng st) (dir st) of
        (end_dir, r) \<Rightarrow>
          (case path_angle E end_dir (dir st) of
             (cos_theta, theta) \<Rightarrow>
               if truthy theta then
                 (let curv = normalise E (psub E end_dir (pscale E cos_theta (dir st)));
                      R = fdiv E (step_size S) theta
                  in (map (arc_sample E S st theta curv R) [0 ..< size_pred (num_samples S)]
                        @ [(padd E (pos st)
                              (pscale E R (padd E (pscale E (fsin E theta) (dir st))
                                                  (pscale E (fsub E (Fin 1) cos_theta) curv))),
                            end_dir)],
                      st\<lparr>rng := r\<rparr>))
               else (map (straight_sample E S st) [0 ..< Suc (num_samples S)],
                     st\<lparr>rng := r\<rparr>)))"

text \<open>
  The arrays \<open>positions\<close> and \<open>tangents\<close> of \<open>rand_path_prob\<close> have \<open>num_samples\<close>
  elements. \<open>stored E S path i\<close> is the pair \<open>(positions[i], tangents[i])\<close> that
  \<open>rand_path_prob\<close> reads after \<open>get_path\<close> has stored the sequence \<open>path\<close>: the
  pair stored at index \<open>i\<close> when \<open>get_path\<close> stayed within the arrays, and what the
  environment makes of it when \<open>get_path\<close> stored past their end, as the straight case
  does. Nothing else is assumed of the stores past the end.
\<close>

definition stored :: "'r Env \<Rightarrow> Shared \<Rightarrow> (Point \<times> Point) list \<Rightarrow> nat \<Rightarrow> Point \<times> Point" where
  "stored E S path i =
     (if length path \<le> num_samples S then path ! i
      else read_back E path (num_samples S) i)"

text \<open>
  \<open>rand_path_prob\<close>: the loop over the samples leaves with \<open>None\<close> where the source
  returns \<open>NAN\<close> early, and with the product otherwise.
\<close>

function prob_loop :: "'r Env \<Rightarrow> Shared \<Rightarrow> (Point \<times> Point) list \<Rightarrow> nat \<Rightarrow> value_type \<Rightarrow> 'r iFOD2
    \<Rightarrow> value_type option \<times> 'r iFOD2" where
  "prob_loop E S path i prob st =
     (if i < num_samples S then
        (case FOD_at E S st (fst (stored E S path i)) (snd (stored E S path i)) of
           (fod_amp, st') \<Rightarrow>
             if isnan fod_amp \<or> fless fod_amp (threshold S) then (None, st')
             else prob_loop E S path (i + 1) (fmul E prob fod_amp) st')
      else (Some prob, st))"
  by pat_completeness auto
termination
  by (relation "measure (\<lambda>(E, S, path, i, prob, st). num_samples S - i)") auto

definition rand_path_prob :: "'r Env \<Rightarrow> Shared \<Rightarrow> 'r iFOD2 \<Rightarrow> Point \<Rightarrow> Point
    \<Rightarrow> value_type \<times> Point \<times> Point \<times> 'r iFOD2" where
  "rand_path_prob E S st next_pos next_dir =
     (case get_path E S (st\<lparr>trials := trials st + 1\<rparr>) of
        (path, st1) \<Rightarrow>
          (case prob_loop E S path 0 (Fin 1) st1 of
             (None, st2) \<Rightarrow> (NaN, next_pos, next_dir, st2)
           | (Some prob, st2) \<Rightarrow>
               (prob, fst (stored E S path (size_pred (num_samples S))),
                snd (stored E S path (size_pred (num_samples S))), st2)))"

text \<open>
  \<open>next\<close>: the probe of 100 candidate paths, then the rejection-sampling loop. The
  message logged by \<open>info\<close> when \<open>val\<close> exceeds \<open>max_val\<close> changes nothing and is left
  out.
\<close>

function probe_loop :: "'r Env \<Rightarrow> Shared \<Rightarrow> nat \<Rightarrow> Point \<Rightarrow> Point \<Rightarrow> value_type \<Rightarrow> 'r iFOD2
    \<Rightarrow> value_type \<times> Point \<times> Point \<times> 'r iFOD2" where
  "probe_loop E S n next_pos next_dir max_val_actual st =
     (if n < 100 then
        (case rand_path_prob E S st next_pos next_dir of
           (val, next_pos', next_dir', st') \<Rightarrow>
             probe_loop E S (n + 1) next_pos' next_dir'
               (if fgreater val max_val_actual then val else max_val_actual) st')
      else (max_val_actual, next_pos, next_dir, st))"
  by pat_completeness auto
termination
  by (relation "measure (\<lambda>(E, S, n, next_pos, next_dir, m, st). 100 - n)") auto

function sample_loop :: "'r Env \<Rightarrow> Shared \<Rightarrow> value_type \<Rightarrow> nat \<Rightarrow> nat \<Rightarrow> Point \<Rightarrow> Point \<Rightarrow> 'r iFOD2
    \<Rightarrow> bool \<times> 'r iFOD2" where
  "sample_loop E S max_val n nmax next_pos next_dir st =
     (if n < nmax then
        (case rand_path_prob E S st next_pos next_dir of
           (val, next_pos', next_dir', st1) \<Rightarrow>
             if fgreater val (prob_threshold S) then
               (case rng_uniform E (rng st1) of
                  (u, r) \<Rightarrow>
                    if fless u (fdiv E val max_val) then
                      (True, st1\<lparr>rng := r,
                                  dir := normalise E next_dir',
                                  pos := next_pos',
                                  mean_sample_num := size_add (mean_sample_num st1) n,
                                  num_sample_runs := size_add (num_sample_runs st1) 1\<rparr>)
                    else sample_loop E S max_val (n + 1) nmax next_pos' next_dir'
                           (st1\<lparr>rng := r\<rparr>))
             else sample_loop E S max_val (n + 1) nmax next_pos' next_dir' st1)
      else (False, st))"
  by pat_completeness auto
termination
  by (relation "measure (\<lambda>(E, S, max_val, n, nmax, next_pos, next_dir, st). nmax - n)") auto

text \<open>
  The locals \<open>next_pos\<close> and \<open>next_dir\<close> start as default-constructed points; they
  are read only after a call of \<open>rand_path_prob\<close> that assigned them.
\<close>

definition next_step :: "'r Env \<Rightarrow> Shared \<Rightarrow> 'r iFOD2 \<Rightarrow> bool \<times> 'r iFOD2" where
  "next_step E S st =
     (case probe_loop E S 0 (Point NaN NaN NaN) (Point NaN NaN NaN) (Fin 0) st of
        (max_val_actual, next_pos, next_dir, st1) \<Rightarrow>
          (let max_val = MAX_macro (prev_prob_val st1) max_val_actual;
               st2 = st1\<lparr>prev_prob_val := max_val_actual\<rparr>
           in if isnan max_val \<or> fless max_val (prob_threshold S) then (False, st2)
              else
                (let max_val' = fmul E max_val (Fin (3 / 2));
                     nmax = (if fgreater max_val_actual (prob_threshold S) then 10000
                             else max_trials S)
                 in sample_loop E S max_val' 0 nmax next_pos next_dir st2)))"

text \<open>
  \<open>init\<close>. \<open>get_data ()\<close> without an argument, declared in \<open>MethodBase\<close>, is taken
  to fetch the coefficients at the current position, the seed. The three numbers drawn
  for \<open>dir.set\<close> reach its parameters in the order the environment gives.
\<close>

function init_loop :: "'r Env \<Rightarrow> Shared \<Rightarrow> nat \<Rightarrow> 'r iFOD2 \<Rightarrow> bool \<times> 'r iFOD2" where
  "init_loop E S n st =
     (if n < max_trials S then
        (case rng_normal E (rng st) of
           (a, r1) \<Rightarrow>
             (case rng_normal E r1 of
                (b, r2) \<Rightarrow>
                  (case rng_normal E r2 of
                     (c, r3) \<Rightarrow>
                       (let st1 = st\<lparr>rng := r3, dir := normalise E (arg_order E a b c)\<rparr>;
                            val = FOD E S st1 (dir st1)
                        in if \<not> isnan val then
                             (if fgreater val (init_threshold S) then
                                (True, st1\<lparr>prev_prob_val := fpow E val (num_samples S)\<rparr>)
                              else init_loop E S (n + 1) st1)
                           else init_loop E S (n + 1) st1))))
      else (False, st))"
  by pat_completeness auto
termination
  by (relation "measure (\<lambda>(E, S, n, st). max_trials S - n)") auto

definition init :: "'r Env \<Rightarrow> Shared \<Rightarrow> 'r iFOD2 \<Rightarrow> bool \<times> 'r iFOD2" where
  "init E S st =
     (case get_data E (pos st) of
        None \<Rightarrow> (False, st)
      | Some v \<Rightarrow>
          (let st0 = st\<lparr>values := v\<rparr>
           in case init_dir S of
                None \<Rightarrow> init_loop E S 0 st0
              | Some d \<Rightarrow>
                  (let st1 = st0\<lparr>dir := d\<rparr>;
                       val = FOD E S st1 (dir st1)
                   in if finite_val val then
                        (if fgreater val (init_threshold S) then
                           (True, st1\<lparr>prev_prob_val := fpow E val (num_samples S)\<rparr>)
                         else (False, st1))
                      else (False, st1))))"

section \<open>The bounds check of warpcorrect\<close>

text \<open>
  \<open>Eigen::Matrix<value_type, 3, 1>\<close> is a triple of floats. Eigen's
  \<open>isMuchSmallerThan\<close> and the rounded subtraction are parameters; \<open>hasNaN\<close> holds
  when some coefficient is NaN.
\<close>

type_synonym Vector3 = "value_type \<times> value_type \<times> value_type"

record BoundsCheck =
  precision :: value_type
  vec :: Vector3
  count :: size_t

fun hasNaN :: "Vector3 \<Rightarrow> bool" where
  "hasNaN (a, b, c) = (isnan a \<or> isnan b \<or> isnan c)"

fun vec_minus :: "(value_type \<Rightarrow> value_type \<Rightarrow> value_type) \<Rightarrow> Vector3 \<Rightarrow> Vector3 \<Rightarrow> Vector3" where
  "vec_minus sub (a, b, c) (x, y, z) = (sub a x, sub b y, sub c z)"

text \<open>
  \<open>BoundsCheck::operator()\<close> on one voxel: \<open>inp\<close> is the row of the input along
  axis 3; the result is the functor with its count and the three values written to the
  output along axis 3.
\<close>

definition BoundsCheck_call :: "(Vector3 \<Rightarrow> value_type \<Rightarrow> bool) \<Rightarrow> (value_type \<Rightarrow> value_type \<Rightarrow> value_type)
    \<Rightarrow> BoundsCheck \<Rightarrow> Vector3 \<Rightarrow> BoundsCheck \<times> Vector3" where
  "BoundsCheck_call isMuchSmallerThan sub B inp =
     (let val = inp
      in if isMuchSmallerThan (vec_minus sub (vec B) val) (precision B)
            \<or> (hasNaN (vec B) \<and> hasNaN val)
         then (B\<lparr>count := size_add (count B) 1\<rparr>, (NaN, NaN, NaN))
         else (B, inp))"

section \<open>A concrete environment for the examples\<close>

text \<open>
  Exact arithmetic: the operations give the exact real result on finite operands, with
  no rounding and no overflow, and follow the IEEE rules on NaN, on the infinities and
  on a zero divisor (zero counts as positive; there is no negative zero). \<open>exact1\<close>
  and \<open>exact2\<close> lift a real function to finite operands and give NaN elsewhere.
\<close>

fun ieee_neg :: "value_type \<Rightarrow> value_type" where
  "ieee_neg NaN = NaN"
| "ieee_neg NegInf = PosInf"
| "ieee_neg (Fin a) = Fin (- a)"
| "ieee_neg PosInf = NegInf"

fun ieee_add :: "value_type \<Rightarrow> value_type \<Rightarrow> value_type" where
  "ieee_add NaN _ = NaN"
| "ieee_add _ NaN = NaN"
| "ieee_add (Fin a) (Fin b) = Fin (a + b)"
| "ieee_add PosInf NegInf = NaN"
| "ieee_add NegInf PosInf = NaN"
| "ieee_add PosInf _ = PosInf"
| "ieee_add NegInf _ = NegInf"
| "ieee_add (Fin _) b = b"

definition ieee_sub :: "value_type \<Rightarrow> value_type \<Rightarrow> value_type" where
  "ieee_sub a b = ieee_add a (ieee_neg b)"

text \<open>An infinity with the sign of the finite factor \<open>a\<close>; NaN for \<open>a = 0\<close>.\<close>

definition signed_inf :: "real \<Rightarrow> value_type \<Rightarrow> value_type" where
  "signed_inf a i = (if a = 0 then NaN else if 0 < a then i else ieee_neg i)"

fun ieee_mul :: "value_type \<Rightarrow> value_type \<Rightarrow> value_type" where
  "ieee_mul NaN _ = NaN"
| "ieee_mul _ NaN = NaN"
| "ieee_mul (Fin a) (Fin b) = Fin (a * b)"
| "ieee_mul (Fin a) i = signed_inf a i"
| "ieee_mul i (Fin b) = signed_inf b i"
| "ieee_mul PosInf i = i"
| "ieee_mul NegInf i = ieee_neg i"

fun ieee_div :: "value_type \<Rightarrow> value_type \<Rightarrow> value_type" where
  "ieee_div NaN _ = NaN"
| "ieee_div _ NaN = NaN"
| "ieee_div (Fin a) (Fin b) = (if b = 0 then signed_inf a PosInf else Fin (a / b))"
| "ieee_div (Fin _) _ = Fin 0"
| "ieee_div i (Fin b) = (if 0 \<le> b then i else ieee_neg i)"
| "ieee_div _ _ = NaN"

text \<open>\<open>acos\<close> is NaN outside \<open>[-1, 1]\<close>.\<close>

fun ieee_acos :: "value_type \<Rightarrow> value_type" where
  "ieee_acos (Fin a) = (if - 1 \<le> a \<and> a \<le> 1 then Fin (arccos a) else NaN)"
| "ieee_acos _ = NaN"

text \<open>
  The environment of the examples. The generator state is the number of draws made so
  far. \<open>demo_env dirs amp\<close> has exact arithmetic, draws \<open>dirs k\<close> as the \<open>k\<close>-th
  random direction, has data everywhere, and gives the direction \<open>d\<close> the amplitude
  \<open>amp d\<close>. Its compiler evaluates arguments from right to left, and after stores past
  the end of the arrays nothing valid is read back.
\<close>

fun exact1 :: "(real \<Rightarrow> real) \<Rightarrow> value_type \<Rightarrow> value_type" where
  "exact1 f (Fin a) = Fin (f a)"
| "exact1 f _ = NaN"

fun exact2 :: "(real \<Rightarrow> real \<Rightarrow> real) \<Rightarrow> value_type \<Rightarrow> value_type \<Rightarrow> value_type" where
  "exact2 f (Fin a) (Fin b) = Fin (f a b)"
| "exact2 f _ _ = NaN"

fun exact_dot :: "Point \<Rightarrow> Point \<Rightarrow> value_type" where
  "exact_dot (Point a b c) (Point x y z) =
     ieee_add (ieee_add (ieee_mul a x) (ieee_mul b y)) (ieee_mul c z)"

fun exact_normalise :: "Point \<Rightarrow> Point" where
  "exact_normalise (Point x y z) =
     (let n = exact1 sqrt (exact_dot (Point x y z) (Point x y z))
      in Point (ieee_div x n) (ieee_div y n) (ieee_div z n))"

definition demo_env :: "(nat \<Rightarrow> Point) \<Rightarrow> (Point \<Rightarrow> value_type) \<Rightarrow> nat Env" where
  "demo_env dirs amp =
     \<lparr>fadd = ieee_add, fsub = ieee_sub, fmul = ieee_mul, fdiv = ieee_div,
      facos = ieee_acos, fcos = exact1 cos, fsin = exact1 sin,
      fpow = (\<lambda>x n. exact1 (\<lambda>a. a ^ n) x),
      of_size = (\<lambda>n. Fin (real n)),
      dot = exact_dot, normalise = exact_normalise,
      get_data = (\<lambda>p. Some []),
      SH_value = (\<lambda>v d l. amp d),
      random_direction = (\<lambda>r d a s. (dirs r, Suc r)),
      rng_uniform = (\<lambda>r. (Fin 0, Suc r)),
      rng_normal = (\<lambda>r. (Fin 1, Suc r)),
      arg_order = (\<lambda>a b c. Point c b a),
      read_back = (\<lambda>path n i. (Point NaN NaN NaN, Point NaN NaN NaN))\<rparr>"

definition demo_shared :: "value_type \<Rightarrow> Shared" where
  "demo_shared thr =
     \<lparr>lmax = 8, num_samples = 1, max_trials = 100,
      sin_max_angle = Fin 1, prob_threshold = thr, max_angle = Fin 1, step_size = Fin 1,
      threshold = thr, init_threshold = thr, init_dir = None, precomputer = None\<rparr>"

definition demo_state :: "value_type \<Rightarrow> nat iFOD2" where
  "demo_state prev =
     \<lparr>pos = Point (Fin 0) (Fin 0) (Fin 0), dir = Point (Fin 1) (Fin 0) (Fin 0),
      values = [], rng = 0, prev_prob_val = prev,
      mean_sample_num = 0, num_sample_runs = 0, trials = 0\<rparr>"

text \<open>
  \<open>late_env\<close>: the first 100 directions drawn, those of the probe, are \<open>(0, 1, 0)\<close>
  and have no amplitude; the later ones are \<open>(0, 0, 1)\<close> with amplitude 2.
  \<open>rising_env\<close>: the first 100 directions have amplitude 2, the later ones amplitude 4.
  \<open>uniform_env\<close>: every direction drawn is \<open>(0, 1, 0)\<close>, with amplitude 2.
\<close>

definition late_env :: "nat Env" where
  "late_env =
     demo_env (\<lambda>k. if k < 100 then Point (Fin 0) (Fin 1) (Fin 0) else Point (Fin 0) (Fin 0) (Fin 1))
       (\<lambda>d. if d = Point (Fin 0) (Fin 0) (Fin 1) then Fin 2 else NaN)"

definition rising_env :: "nat Env" where
  "rising_env =
     demo_env (\<lambda>k. if k < 100 then Point (Fin 0) (Fin 1) (Fin 0) else Point (Fin 0) (Fin 0) (Fin 1))
       (\<lambda>d. if d = Point (Fin 0) (Fin 0) (Fin 1) then Fin 4 else Fin 2)"

definition uniform_env :: "nat Env" where
  "uniform_env = demo_env (\<lambda>k. Point (Fin 0) (Fin 1) (Fin 0)) (\<lambda>d. Fin 2)"

text \<open>
  \<open>zero_inf_env\<close>: every direction drawn is \<open>(0, 1, 0)\<close>; this direction has an
  infinite amplitude and every other direction the amplitude 0.
\<close>

definition zero_inf_env :: "nat Env" where
  "zero_inf_env =
     demo_env (\<lambda>k. Point (Fin 0) (Fin 1) (Fin 0))
       (\<lambda>d. if d = Point (Fin 0) (Fin 1) (Fin 0) then PosInf else Fin 0)"

text \<open>
  \<open>third\<close> is the single-precision number nearest to \<open>1 / sqrt 3\<close>, so that
  \<open>(third, third, third)\<close> is what \<open>normalise\<close> makes of \<open>(1, 1, 1)\<close>. In single
  precision the product \<open>third * third\<close> is rounded to \<open>11184810 / 2^25\<close>, and the dot
  product of this direction with itself is \<open>rounded_one = 1 - 2^-24\<close>.
  \<open>rounded_dot_env\<close> draws this direction every time and has this rounded dot
  product; its other operations are exact. \<open>rounded_theta\<close> is the angle that
  \<open>get_path\<close> then finds between the direction and itself, and \<open>rounded_offset\<close> is
  each coordinate of its first sample when the step size is 1 and two samples are
  taken from the origin.
\<close>

definition third :: real where
  "third = 9686330 / 2 ^ 24"

definition rounded_one :: real where
  "rounded_one = 1 - 1 / 2 ^ 24"

definition rounded_theta :: real where
  "rounded_theta = arccos rounded_one"

definition rounded_offset :: real where
  "rounded_offset =
     1 / rounded_theta
       * (sin (rounded_theta / 2) * third + (1 - cos (rounded_theta / 2)) * (1 / sqrt 3))"

definition rounded_dot_env :: "nat Env" where
  "rounded_dot_env =
     (demo_env (\<lambda>k. Point (Fin third) (Fin third) (Fin third)) (\<lambda>d. Fin 1))
       \<lparr>dot := \<lambda>p q. Fin rounded_one\<rparr>"

text \<open>
  Eigen's \<open>isMuchSmallerThan\<close> with the default precision \<open>1e-5\<close>, in exact arithmetic:
  the squared norm of the vector is at most the squared precision times the square of
  the reference value.
\<close>

fun demo_isMuchSmallerThan :: "Vector3 \<Rightarrow> value_type \<Rightarrow> bool" where
  "demo_isMuchSmallerThan (Fin a, Fin b, Fin c) (Fin p) =
     (a * a + b * b + c * c \<le> (1 / 10 ^ 5) * (1 / 10 ^ 5) * (p * p))"
| "demo_isMuchSmallerThan _ _ = False"

section \<open>Auxiliary notions for the statements\<close>

text \<open>\<open>exact_arith E\<close>: the arithmetic of the environment \<open>E\<close> is the exact one.\<close>

definition exact_arith :: "'r Env \<Rightarrow> bool" where
  "exact_arith E \<longleftrightarrow>
     fadd E = ieee_add \<and> fsub E = ieee_sub \<and> fmul E = ieee_mul \<and> fdiv E = ieee_div
     \<and> facos E = ieee_acos \<and> fcos E = exact1 cos \<and> fsin E = exact1 sin
     \<and> of_size E = (\<lambda>n. Fin (real n)) \<and> dot E = exact_dot \<and> normalise E = exact_normalise"

text \<open>
  \<open>sample_amp E S st path i\<close> is the amplitude \<open>FOD (positions[i], tangents[i])\<close> of
  the \<open>i\<close>-th stored sample; it depends on the state only through the environment.
\<close>

definition sample_amp :: "'r Env \<Rightarrow> Shared \<Rightarrow> 'r iFOD2 \<Rightarrow> (Point \<times> Point) list \<Rightarrow> nat \<Rightarrow> value_type" where
  "sample_amp E S st path i = fst (FOD_at E S st (fst (path ! i)) (snd (path ! i)))"

text \<open>
  \<open>frame st st'\<close>: position, direction, the previous probability and the two
  diagnostic counters are the same in both states.
\<close>

definition frame :: "'r iFOD2 \<Rightarrow> 'r iFOD2 \<Rightarrow> bool" where
  "frame st st' \<longleftrightarrow>
     pos st' = pos st \<and> dir st' = dir st \<and> prev_prob_val st' = prev_prob_val st
     \<and> mean_sample_num st' = mean_sample_num st \<and> num_sample_runs st' = num_sample_runs st"

declare prob_loop.simps [simp del]
declare probe_loop.simps [simp del]
declare sample_loop.simps [simp del]
declare init_loop.simps [simp del]

section \<open>The arc generator\<close>

lemma size_pred_pos: "1 \<le> n \<Longrightarrow> n < size_max \<Longrightarrow> size_pred n = n - 1"
proof -
  assume a: "1 \<le> n" "n < size_max"
  then obtain m where m: "n = Suc m" by (cases n) auto
  have "n + (size_max - 1) = m + size_max" using m by (simp add: size_max_def)
  then show ?thesis using a m by (simp add: size_pred_def)
qed

text \<open>
  C1. In the straight case (\<open>theta\<close> compares equal to zero) the loop runs for
  \<open>i = 0, ..., num_samples\<close>: \<open>get_path\<close> stores \<open>num_samples + 1\<close> pairs, the last
  one at index \<open>num_samples\<close>, one past the end of the caller's buffers. The pair stored
  at index \<open>i\<close> is the position \<open>pos + (i + 1) * (step_size / num_samples) * dir\<close> with
  the tangent \<open>dir\<close>. So the sequence is not of length \<open>num_samples\<close>, as the claim has
  it.
\<close>

theorem get_path_straight_stores:
  assumes "rand_dir E S (rng st) (dir st) = (end_dir, r)"
    and "path_angle E end_dir (dir st) = (cos_theta, theta)"
    and "\<not> truthy theta"
  shows "length (fst (get_path E S st)) = num_samples S + 1
    \<and> (\<forall>i \<le> num_samples S. fst (get_path E S st) ! i =
          (padd E (pos st)
             (pscale E (fmul E (of_size E (i + 1)) (fdiv E (step_size S) (of_size E (num_samples S))))
                (dir st)),
           dir st))"
  using assms by (simp add: get_path_def straight_sample_def nth_append del: upt_Suc)

text \<open>
  With one sample per step and the end direction equal to the current direction
  \<open>(1, 0, 0)\<close>, two pairs are stored into buffers of one element.
\<close>

theorem get_path_straight_stores_witness:
  "num_samples (demo_shared (Fin 1)) = 1
   \<and> length (fst (get_path (demo_env (\<lambda>k. Point (Fin 1) (Fin 0) (Fin 0)) (\<lambda>d. Fin 1))
                 (demo_shared (Fin 1)) (demo_state (Fin 1)))) = 2
   \<and> fst (get_path (demo_env (\<lambda>k. Point (Fin 1) (Fin 0) (Fin 0)) (\<lambda>d. Fin 1))
                 (demo_shared (Fin 1)) (demo_state (Fin 1))) ! 1
       = (Point (Fin 2) (Fin 0) (Fin 0), Point (Fin 1) (Fin 0) (Fin 0))"
  using get_path_straight_stores [of "demo_env (\<lambda>k. Point (Fin 1) (Fin 0) (Fin 0)) (\<lambda>d. Fin 1)"
      "demo_shared (Fin 1)" "demo_state (Fin 1)" "Point (Fin 1) (Fin 0) (Fin 0)" 1 "Fin 1" "Fin 0"]
  by (simp add: demo_env_def demo_shared_def demo_state_def rand_dir_def path_angle_def
      std_min_def)

text \<open>
  The geometry of the curved case, in exact arithmetic. When the current direction and
  \<open>curv\<close> are orthogonal unit vectors, the sample of index \<open>i\<close> lies at the distance
  \<open>R\<close> from the centre \<open>pos + R * curv\<close>, at the angle
  \<open>a = theta * (i + 1) / num_samples\<close> from the start, and its tangent is a unit vector
  orthogonal to the radius.
\<close>


text \<open>
  The geometry of the arc formulas, over the reals. For orthogonal unit vectors \<open>d\<close>
  and \<open>c\<close>, the point \<open>p + R * (sin a * d + (1 - cos a) * c)\<close> lies at the distance
  \<open>R\<close> from the centre \<open>p + R * c\<close>, at the angle \<open>a\<close> from the start \<open>p\<close>, and
  \<open>cos a * d + sin a * c\<close> is a unit vector orthogonal to the radius.
\<close>

lemma arc_geometry:
  fixes px py pz dx dy dz cx cy cz R a :: real
  assumes unit_d: "dx * dx + dy * dy + dz * dz = 1"
    and unit_c: "cx * cx + cy * cy + cz * cz = 1"
    and orth: "cx * dx + cy * dy + cz * dz = 0"
    and x: "x = px + R * (sin a * dx + (1 - cos a) * cx)"
    and y: "y = py + R * (sin a * dy + (1 - cos a) * cy)"
    and z: "z = pz + R * (sin a * dz + (1 - cos a) * cz)"
    and tx: "tx = cos a * dx + sin a * cx"
    and ty: "ty = cos a * dy + sin a * cy"
    and tz: "tz = cos a * dz + sin a * cz"
  shows "(x - (px + R * cx)) ^ 2 + (y - (py + R * cy)) ^ 2 + (z - (pz + R * cz)) ^ 2 = R ^ 2"
    and "tx * tx + ty * ty + tz * tz = 1"
    and "(x - (px + R * cx)) * tx + (y - (py + R * cy)) * ty + (z - (pz + R * cz)) * tz = 0"
proof -
  define s where "s = sin a"
  define k where "k = cos a"
  have sk: "s * s + k * k = 1" unfolding s_def k_def
    using sin_cos_squared_add [of a] by (simp add: power2_eq_square)
  have orth': "dx * cx + dy * cy + dz * cz = 0" using orth by (simp add: mult.commute)
  have rx: "x - (px + R * cx) = R * (s * dx - k * cx)"
    and ry: "y - (py + R * cy) = R * (s * dy - k * cy)"
    and rz: "z - (pz + R * cz) = R * (s * dz - k * cz)"
    by (simp_all add: x y z s_def k_def algebra_simps)
  have t: "tx = k * dx + s * cx" "ty = k * dy + s * cy" "tz = k * dz + s * cz"
    by (simp_all add: tx ty tz s_def k_def)
  have n1: "(s * dx - k * cx) ^ 2 + (s * dy - k * cy) ^ 2 + (s * dz - k * cz) ^ 2
      = s * s * (dx * dx + dy * dy + dz * dz) + k * k * (cx * cx + cy * cy + cz * cz)
        - 2 * s * k * (dx * cx + dy * cy + dz * cz)"
    by (simp add: power2_eq_square algebra_simps)
  have "(x - (px + R * cx)) ^ 2 + (y - (py + R * cy)) ^ 2 + (z - (pz + R * cz)) ^ 2
      = R ^ 2 * ((s * dx - k * cx) ^ 2 + (s * dy - k * cy) ^ 2 + (s * dz - k * cz) ^ 2)"
    unfolding rx ry rz power_mult_distrib by (simp add: distrib_left)
  also have "\<dots> = R ^ 2" unfolding n1 unit_d unit_c orth' using sk by simp
  finally show "(x - (px + R * cx)) ^ 2 + (y - (py + R * cy)) ^ 2 + (z - (pz + R * cz)) ^ 2 = R ^ 2" .
  have "tx * tx + ty * ty + tz * tz
      = k * k * (dx * dx + dy * dy + dz * dz) + s * s * (cx * cx + cy * cy + cz * cz)
        + 2 * s * k * (dx * cx + dy * cy + dz * cz)"
    unfolding t by (simp add: algebra_simps)
  also have "\<dots> = 1" unfolding unit_d unit_c orth' using sk by simp
  finally show "tx * tx + ty * ty + tz * tz = 1" .
  have "(x - (px + R * cx)) * tx + (y - (py + R * cy)) * ty + (z - (pz + R * cz)) * tz
      = R * (s * k * (dx * dx + dy * dy + dz * dz) - s * k * (cx * cx + cy * cy + cz * cz)
             + (s * s - k * k) * (dx * cx + dy * cy + dz * cz))"
    unfolding rx ry rz t by (simp add: algebra_simps)
  also have "\<dots> = 0" unfolding unit_d unit_c orth' by simp
  finally show "(x - (px + R * cx)) * tx + (y - (py + R * cy)) * ty + (z - (pz + R * cz)) * tz = 0" .
qed

text \<open>
  In exact arithmetic, for unit vectors \<open>d\<close> and \<open>e\<close> with \<open>-1 < e . d < 1\<close>, the
  vector \<open>normalise (e - (e . d) * d)\<close> of \<open>get_path\<close> is a unit vector orthogonal to
  \<open>d\<close>, and \<open>e\<close> is \<open>cos t * d + sin t * curv\<close> for \<open>t = acos (e . d)\<close>.
\<close>

lemma exact_curv:
  fixes dx dy dz ex ey ez c :: real
  assumes unit_d: "dx * dx + dy * dy + dz * dz = 1"
    and unit_e: "ex * ex + ey * ey + ez * ez = 1"
    and c: "c = ex * dx + ey * dy + ez * dz"
    and lo: "- 1 < c" and hi: "c < 1"
    and n: "n = sqrt (1 - c * c)"
  shows "exact_normalise (Point (Fin (ex - c * dx)) (Fin (ey - c * dy)) (Fin (ez - c * dz)))
           = Point (Fin ((ex - c * dx) / n)) (Fin ((ey - c * dy) / n)) (Fin ((ez - c * dz) / n))"
    and "0 < n"
    and "(ex - c * dx) / n * ((ex - c * dx) / n) + (ey - c * dy) / n * ((ey - c * dy) / n)
          + (ez - c * dz) / n * ((ez - c * dz) / n) = 1"
    and "(ex - c * dx) / n * dx + (ey - c * dy) / n * dy + (ez - c * dz) / n * dz = 0"
    and "ex = c * dx + n * ((ex - c * dx) / n)"
    and "ey = c * dy + n * ((ey - c * dy) / n)"
    and "ez = c * dz + n * ((ez - c * dz) / n)"
proof -
  have "c ^ 2 < 1" using lo hi by (simp add: abs_square_less_1)
  then have "c * c < 1" by (simp add: power2_eq_square)
  then have pos: "0 < 1 - c * c" by simp
  then show n0: "0 < n" using n by simp
  have nn: "n * n = 1 - c * c" using n pos by simp
  have sq: "(ex - c * dx) * (ex - c * dx) + (ey - c * dy) * (ey - c * dy)
      + (ez - c * dz) * (ez - c * dz) = 1 - c * c"
  proof -
    have "(ex - c * dx) * (ex - c * dx) + (ey - c * dy) * (ey - c * dy)
      + (ez - c * dz) * (ez - c * dz)
      = (ex * ex + ey * ey + ez * ez) - 2 * c * (ex * dx + ey * dy + ez * dz)
        + c * c * (dx * dx + dy * dy + dz * dz)"
      by (simp add: algebra_simps)
    also have "\<dots> = 1 - c * c" unfolding unit_d unit_e c [symmetric] by simp
    finally show ?thesis .
  qed
  show "exact_normalise (Point (Fin (ex - c * dx)) (Fin (ey - c * dy)) (Fin (ez - c * dz)))
           = Point (Fin ((ex - c * dx) / n)) (Fin ((ey - c * dy) / n)) (Fin ((ez - c * dz) / n))"
    using n0 by (simp add: sq n)
  have "(ex - c * dx) / n * ((ex - c * dx) / n) + (ey - c * dy) / n * ((ey - c * dy) / n)
          + (ez - c * dz) / n * ((ez - c * dz) / n)
      = ((ex - c * dx) * (ex - c * dx) + (ey - c * dy) * (ey - c * dy)
          + (ez - c * dz) * (ez - c * dz)) / (n * n)"
    by (simp add: add_divide_distrib)
  also have "\<dots> = 1" unfolding sq nn using pos by simp
  finally show "(ex - c * dx) / n * ((ex - c * dx) / n) + (ey - c * dy) / n * ((ey - c * dy) / n)
          + (ez - c * dz) / n * ((ez - c * dz) / n) = 1" .
  have "(ex - c * dx) / n * dx + (ey - c * dy) / n * dy + (ez - c * dz) / n * dz
      = ((ex * dx + ey * dy + ez * dz) - c * (dx * dx + dy * dy + dz * dz)) / n"
    by (simp add: algebra_simps add_divide_distrib diff_divide_distrib)
  also have "\<dots> = 0" unfolding unit_d c [symmetric] by simp
  finally show "(ex - c * dx) / n * dx + (ey - c * dy) / n * dy + (ez - c * dz) / n * dz = 0" .
  show "ex = c * dx + n * ((ex - c * dx) / n)" "ey = c * dy + n * ((ey - c * dy) / n)"
    "ez = c * dz + n * ((ez - c * dz) / n)"
    using n0 by simp_all
qed

lemma unit_dot_le_1:
  fixes dx dy dz ex ey ez :: real
  assumes "dx * dx + dy * dy + dz * dz = 1" and "ex * ex + ey * ey + ez * ez = 1"
  shows "ex * dx + ey * dy + ez * dz \<le> 1"
proof -
  have "0 \<le> (ex - dx) * (ex - dx) + (ey - dy) * (ey - dy) + (ez - dz) * (ez - dz)"
    by (intro add_nonneg_nonneg) simp_all
  also have "\<dots> = (ex * ex + ey * ey + ez * ez) + (dx * dx + dy * dy + dz * dz)
      - 2 * (ex * dx + ey * dy + ez * dz)"
    by (simp add: algebra_simps)
  finally show ?thesis using assms by simp
qed

text \<open>The samples of \<open>get_path\<close> in exact arithmetic, on finite operands.\<close>

lemma exact_arc_sample:
  assumes ex: "exact_arith E"
    and st: "pos st = Point (Fin px) (Fin py) (Fin pz)" "dir st = Point (Fin dx) (Fin dy) (Fin dz)"
    and n: "1 \<le> num_samples S"
    and a: "a = t * real (i + 1) / real (num_samples S)"
  shows "arc_sample E S st (Fin t) (Point (Fin cx) (Fin cy) (Fin cz)) (Fin R) i
      = (Point (Fin (px + R * (sin a * dx + (1 - cos a) * cx)))
               (Fin (py + R * (sin a * dy + (1 - cos a) * cy)))
               (Fin (pz + R * (sin a * dz + (1 - cos a) * cz))),
         Point (Fin (cos a * dx + sin a * cx)) (Fin (cos a * dy + sin a * cy))
               (Fin (cos a * dz + sin a * cz)))"
  using ex n by (simp add: exact_arith_def arc_sample_def st a Let_def ieee_sub_def)

text \<open>
  C9, as the code has it. In the curved case with \<open>1 \<le> num_samples\<close>, \<open>get_path\<close>
  stores exactly \<open>num_samples\<close> pairs, and the tangent of the last one is the end
  direction itself. For \<open>i < num_samples - 1\<close> the pair at index \<open>i\<close> is computed as
  \<open>pos + R * (sin (a i) * dir + (1 - cos (a i)) * curv)\<close> with the tangent
  \<open>cos (a i) * dir + sin (a i) * curv\<close>, where \<open>R = step_size / theta\<close>,
  \<open>a i = theta * (i + 1) / num_samples\<close> and
  \<open>curv = normalise (end_dir - cos_theta * dir)\<close>; the last position is computed with
  \<open>sin theta\<close> and \<open>cos_theta\<close>. All this holds whatever the rounding is.

  That the samples lie on a circular arc holds in exact arithmetic: when the current
  direction and the end direction are unit vectors that are not opposite, \<open>theta\<close> is
  the angle \<open>t\<close> between them, \<open>curv\<close> is a unit vector orthogonal to the current
  direction, and each of the \<open>num_samples\<close> samples lies at the distance
  \<open>step_size / t\<close> from the centre \<open>pos + (step_size / t) * curv\<close>, at the angle
  \<open>t * (i + 1) / num_samples\<close> from the start, with a unit tangent orthogonal to the
  radius.
\<close>

theorem get_path_curved_arc:
  assumes "rand_dir E S (rng st) (dir st) = (end_dir, r)"
    and "path_angle E end_dir (dir st) = (cos_theta, theta)"
    and "truthy theta"
    and "1 \<le> num_samples S" and "num_samples S < size_max"
    and "curv = normalise E (psub E end_dir (pscale E cos_theta (dir st)))"
    and "R = fdiv E (step_size S) theta"
    and "\<And>i. a i = fdiv E (fmul E theta (of_size E (i + 1))) (of_size E (num_samples S))"
  shows "length (fst (get_path E S st)) = num_samples S
    \<and> snd (fst (get_path E S st) ! (num_samples S - 1)) = end_dir
    \<and> (\<forall>i < num_samples S - 1.
          fst (get_path E S st) ! i =
            (padd E (pos st)
               (pscale E R (padd E (pscale E (fsin E (a i)) (dir st))
                                   (pscale E (fsub E (Fin 1) (fcos E (a i))) curv))),
             padd E (pscale E (fcos E (a i)) (dir st)) (pscale E (fsin E (a i)) curv)))
    \<and> fst (fst (get_path E S st) ! (num_samples S - 1)) =
         padd E (pos st)
           (pscale E R (padd E (pscale E (fsin E theta) (dir st))
                               (pscale E (fsub E (Fin 1) cos_theta) curv)))
    \<and> (exact_arith E \<longrightarrow>
         (\<forall>px py pz dx dy dz ex ey ez h.
            pos st = Point (Fin px) (Fin py) (Fin pz)
            \<and> dir st = Point (Fin dx) (Fin dy) (Fin dz) \<and> dx * dx + dy * dy + dz * dz = 1
            \<and> end_dir = Point (Fin ex) (Fin ey) (Fin ez) \<and> ex * ex + ey * ey + ez * ez = 1
            \<and> - 1 < ex * dx + ey * dy + ez * dz
            \<and> step_size S = Fin h
            \<longrightarrow> (\<exists>t cx cy cz.
                  theta = Fin t \<and> 0 < t \<and> t < pi \<and> cos t = ex * dx + ey * dy + ez * dz
                  \<and> curv = Point (Fin cx) (Fin cy) (Fin cz)
                  \<and> cx * cx + cy * cy + cz * cz = 1 \<and> cx * dx + cy * dy + cz * dz = 0
                  \<and> (\<forall>i < num_samples S.
                        \<exists>x y z tx ty tz.
                          fst (get_path E S st) ! i
                            = (Point (Fin x) (Fin y) (Fin z), Point (Fin tx) (Fin ty) (Fin tz))
                          \<and> (x - (px + h / t * cx)) ^ 2 + (y - (py + h / t * cy)) ^ 2
                              + (z - (pz + h / t * cz)) ^ 2 = (h / t) ^ 2
                          \<and> x - (px + h / t * cx)
                              = h / t * (sin (t * real (i + 1) / real (num_samples S)) * dx
                                         - cos (t * real (i + 1) / real (num_samples S)) * cx)
                          \<and> y - (py + h / t * cy)
                              = h / t * (sin (t * real (i + 1) / real (num_samples S)) * dy
                                         - cos (t * real (i + 1) / real (num_samples S)) * cy)
                          \<and> z - (pz + h / t * cz)
                              = h / t * (sin (t * real (i + 1) / real (num_samples S)) * dz
                                         - cos (t * real (i + 1) / real (num_samples S)) * cz)
                          \<and> tx * tx + ty * ty + tz * tz = 1
                          \<and> (x - (px + h / t * cx)) * tx + (y - (py + h / t * cy)) * ty
                              + (z - (pz + h / t * cz)) * tz = 0))))"
proof -
  let ?path = "fst (get_path E S st)"
  let ?n = "num_samples S"
  have path: "?path = map (arc_sample E S st theta curv R) [0 ..< ?n - 1]
      @ [(padd E (pos st)
            (pscale E R (padd E (pscale E (fsin E theta) (dir st))
                                (pscale E (fsub E (Fin 1) cos_theta) curv))),
          end_dir)]"
    using assms(1-7) by (simp add: get_path_def size_pred_pos Let_def)
  have len: "length ?path = ?n" using assms(4) by (simp add: path)
  have last: "?path ! (?n - 1)
      = (padd E (pos st)
            (pscale E R (padd E (pscale E (fsin E theta) (dir st))
                                (pscale E (fsub E (Fin 1) cos_theta) curv))),
          end_dir)"
    by (simp add: path nth_append)
  have mid: "\<And>i. i < ?n - 1 \<Longrightarrow> ?path ! i = arc_sample E S st theta curv R i"
    by (simp add: path nth_append)
  have general: "length ?path = ?n \<and> snd (?path ! (?n - 1)) = end_dir
    \<and> (\<forall>i < ?n - 1.
          ?path ! i =
            (padd E (pos st)
               (pscale E R (padd E (pscale E (fsin E (a i)) (dir st))
                                   (pscale E (fsub E (Fin 1) (fcos E (a i))) curv))),
             padd E (pscale E (fcos E (a i)) (dir st)) (pscale E (fsin E (a i)) curv)))
    \<and> fst (?path ! (?n - 1)) =
         padd E (pos st)
           (pscale E R (padd E (pscale E (fsin E theta) (dir st))
                               (pscale E (fsub E (Fin 1) cos_theta) curv)))"
    using len last mid assms(8) by (simp add: arc_sample_def Let_def)
  have exact: "\<exists>t cx cy cz.
        theta = Fin t \<and> 0 < t \<and> t < pi \<and> cos t = ex * dx + ey * dy + ez * dz
        \<and> curv = Point (Fin cx) (Fin cy) (Fin cz)
        \<and> cx * cx + cy * cy + cz * cz = 1 \<and> cx * dx + cy * dy + cz * dz = 0
        \<and> (\<forall>i < ?n.
              \<exists>x y z tx ty tz.
                ?path ! i = (Point (Fin x) (Fin y) (Fin z), Point (Fin tx) (Fin ty) (Fin tz))
                \<and> (x - (px + h / t * cx)) ^ 2 + (y - (py + h / t * cy)) ^ 2
                    + (z - (pz + h / t * cz)) ^ 2 = (h / t) ^ 2
                \<and> x - (px + h / t * cx)
                    = h / t * (sin (t * real (i + 1) / real ?n) * dx
                               - cos (t * real (i + 1) / real ?n) * cx)
                \<and> y - (py + h / t * cy)
                    = h / t * (sin (t * real (i + 1) / real ?n) * dy
                               - cos (t * real (i + 1) / real ?n) * cy)
                \<and> z - (pz + h / t * cz)
                    = h / t * (sin (t * real (i + 1) / real ?n) * dz
                               - cos (t * real (i + 1) / real ?n) * cz)
                \<and> tx * tx + ty * ty + tz * tz = 1
                \<and> (x - (px + h / t * cx)) * tx + (y - (py + h / t * cy)) * ty
                    + (z - (pz + h / t * cz)) * tz = 0)"
    if ex: "exact_arith E"
      and p: "pos st = Point (Fin px) (Fin py) (Fin pz)"
      and d: "dir st = Point (Fin dx) (Fin dy) (Fin dz)" and ud: "dx * dx + dy * dy + dz * dz = 1"
      and e: "end_dir = Point (Fin ex) (Fin ey) (Fin ez)" and ue: "ex * ex + ey * ey + ez * ez = 1"
      and lo: "- 1 < ex * dx + ey * dy + ez * dz"
      and h: "step_size S = Fin h"
    for px py pz dx dy dz ex ey ez h
  proof -
    define c where "c = ex * dx + ey * dy + ez * dz"
    define t where "t = arccos c"
    define m where "m = sqrt (1 - c * c)"
    define cx where "cx = (ex - c * dx) / m"
    define cy where "cy = (ey - c * dy) / m"
    define cz where "cz = (ez - c * dz) / m"
    have le1: "c \<le> 1" unfolding c_def by (rule unit_dot_le_1 [OF ud ue])
    have dotv: "dot E end_dir (dir st) = Fin c"
      using ex by (simp add: exact_arith_def d e c_def)
    have sm: "std_min (Fin c) (Fin 1) = Fin c" using le1 by (simp add: std_min_def)
    have "path_angle E end_dir (dir st) = (Fin c, facos E (Fin c))"
      by (simp add: path_angle_def Let_def dotv sm)
    then have ct: "cos_theta = Fin c" and th0: "theta = facos E (Fin c)"
      using assms(2) by simp_all
    have th: "theta = ieee_acos (Fin c)" using th0 ex by (simp add: exact_arith_def)
    have tht: "theta = Fin t" using th lo le1 by (simp add: t_def c_def)
    have "t \<noteq> 0" using assms(3) tht by simp
    then have "c \<noteq> 1" unfolding t_def by auto
    then have hi: "c < 1" using le1 by simp
    have lo': "- 1 < c" using lo by (simp add: c_def)
    have t0: "0 < t" and tpi: "t < pi"
      using arccos_lt_bounded [OF lo' hi] by (simp_all add: t_def)
    have cost: "cos t = c" unfolding t_def using lo' hi by (simp add: cos_arccos)
    have sint: "sin t = m" unfolding t_def m_def using lo' hi
      by (simp add: sin_arccos power2_eq_square)
    note cv = exact_curv [OF ud ue c_def lo' hi m_def]
    have curv: "curv = Point (Fin cx) (Fin cy) (Fin cz)"
      using ex cv(1) by (simp add: assms(6) ct d e exact_arith_def ieee_sub_def cx_def cy_def cz_def)
    have uc: "cx * cx + cy * cy + cz * cz = 1" using cv(3) by (simp add: cx_def cy_def cz_def)
    have oc: "cx * dx + cy * dy + cz * dz = 0" using cv(4) by (simp add: cx_def cy_def cz_def)
    have Rv: "R = Fin (h / t)" using ex \<open>t \<noteq> 0\<close> by (simp add: assms(7) h tht exact_arith_def)
    have n0: "real ?n \<noteq> 0" using assms(4) by simp
    have sample: "\<exists>x y z tx ty tz.
                ?path ! i = (Point (Fin x) (Fin y) (Fin z), Point (Fin tx) (Fin ty) (Fin tz))
                \<and> (x - (px + h / t * cx)) ^ 2 + (y - (py + h / t * cy)) ^ 2
                    + (z - (pz + h / t * cz)) ^ 2 = (h / t) ^ 2
                \<and> x - (px + h / t * cx)
                    = h / t * (sin (t * real (i + 1) / real ?n) * dx
                               - cos (t * real (i + 1) / real ?n) * cx)
                \<and> y - (py + h / t * cy)
                    = h / t * (sin (t * real (i + 1) / real ?n) * dy
                               - cos (t * real (i + 1) / real ?n) * cy)
                \<and> z - (pz + h / t * cz)
                    = h / t * (sin (t * real (i + 1) / real ?n) * dz
                               - cos (t * real (i + 1) / real ?n) * cz)
                \<and> tx * tx + ty * ty + tz * tz = 1
                \<and> (x - (px + h / t * cx)) * tx + (y - (py + h / t * cy)) * ty
                    + (z - (pz + h / t * cz)) * tz = 0"
      if i: "i < ?n" for i
    proof -
      define b where "b = t * real (i + 1) / real ?n"
      define x where "x = px + h / t * (sin b * dx + (1 - cos b) * cx)"
      define y where "y = py + h / t * (sin b * dy + (1 - cos b) * cy)"
      define z where "z = pz + h / t * (sin b * dz + (1 - cos b) * cz)"
      define tx where "tx = cos b * dx + sin b * cx"
      define ty where "ty = cos b * dy + sin b * cy"
      define tz where "tz = cos b * dz + sin b * cz"
      have eq: "?path ! i = (Point (Fin x) (Fin y) (Fin z), Point (Fin tx) (Fin ty) (Fin tz))"
      proof (cases "i < ?n - 1")
        case True
        then show ?thesis
          using exact_arc_sample [OF ex p d assms(4) b_def, of cx cy cz "h / t"]
          by (simp add: mid tht curv Rv x_def y_def z_def tx_def ty_def tz_def)
      next
        case False
        then have i': "i = ?n - 1" using i by simp
        then have b: "b = t" using n0 assms(4) by (simp add: b_def of_nat_diff)
        have "end_dir = Point (Fin tx) (Fin ty) (Fin tz)"
          using cv(5-7) by (simp add: e tx_def ty_def tz_def b cost sint cx_def cy_def cz_def)
        moreover have "padd E (pos st)
            (pscale E R (padd E (pscale E (fsin E theta) (dir st))
                                (pscale E (fsub E (Fin 1) cos_theta) curv)))
            = Point (Fin x) (Fin y) (Fin z)"
          using ex by (simp add: exact_arith_def p d tht ct curv Rv ieee_sub_def
              x_def y_def z_def b cost)
        ultimately show ?thesis using last i' by simp
      qed
      note g = arc_geometry [OF ud uc oc x_def y_def z_def tx_def ty_def tz_def]
      have rx: "x - (px + h / t * cx) = h / t * (sin b * dx - cos b * cx)"
        and ry: "y - (py + h / t * cy) = h / t * (sin b * dy - cos b * cy)"
        and rz: "z - (pz + h / t * cz) = h / t * (sin b * dz - cos b * cz)"
        by (simp_all add: x_def y_def z_def algebra_simps)
      show ?thesis using eq g rx ry rz unfolding b_def by blast
    qed
    show ?thesis using tht t0 tpi cost curv uc oc sample unfolding c_def by blast
  qed
  show ?thesis using general exact by blast
qed


text \<open>
  A quarter turn from \<open>(1, 0, 0)\<close> to \<open>(0, 1, 0)\<close> in two samples with the step size 1,
  in exact arithmetic: the second tangent is the end direction, and the first sample
  lies at the distance \<open>2 / pi\<close> from the centre \<open>(0, 2 / pi, 0)\<close>.
\<close>

theorem get_path_curved_arc_witness:
  "exact_arith uniform_env
   \<and> truthy (Fin (pi / 2))
   \<and> length (fst (get_path uniform_env ((demo_shared (Fin 1))\<lparr>num_samples := 2\<rparr>)
                 (demo_state (Fin 1)))) = 2
   \<and> snd (fst (get_path uniform_env ((demo_shared (Fin 1))\<lparr>num_samples := 2\<rparr>)
                 (demo_state (Fin 1))) ! 1) = Point (Fin 0) (Fin 1) (Fin 0)
   \<and> (\<exists>x y z tx ty tz.
         fst (get_path uniform_env ((demo_shared (Fin 1))\<lparr>num_samples := 2\<rparr>)
                 (demo_state (Fin 1))) ! 0
           = (Point (Fin x) (Fin y) (Fin z), Point (Fin tx) (Fin ty) (Fin tz))
         \<and> x ^ 2 + (y - 2 / pi) ^ 2 + z ^ 2 = (2 / pi) ^ 2
         \<and> tx * tx + ty * ty + tz * tz = 1)"
proof -
  let ?S = "(demo_shared (Fin 1))\<lparr>num_samples := 2\<rparr>"
  let ?st = "demo_state (Fin 1)"
  let ?e = "Point (Fin 0) (Fin 1) (Fin 0)"
  have ex: "exact_arith uniform_env"
    by (simp add: exact_arith_def uniform_env_def demo_env_def)
  have rd: "rand_dir uniform_env ?S (rng ?st) (dir ?st) = (?e, 1)"
    by (simp add: rand_dir_def uniform_env_def demo_env_def demo_state_def)
  have pa: "path_angle uniform_env ?e (dir ?st) = (Fin 0, Fin (pi / 2))"
    by (simp add: path_angle_def uniform_env_def demo_env_def demo_state_def std_min_def)
  have tr: "truthy (Fin (pi / 2))" by simp
  have n1: "1 \<le> num_samples ?S" and n2: "num_samples ?S < size_max"
    by (simp_all add: demo_shared_def size_max_def)
  have cv: "normalise uniform_env (psub uniform_env ?e (pscale uniform_env (Fin 0) (dir ?st))) = ?e"
    by (simp add: uniform_env_def demo_env_def demo_state_def ieee_sub_def)
  note inst = get_path_curved_arc [OF rd pa tr n1 n2 refl refl refl]
  have len: "length (fst (get_path uniform_env ?S ?st)) = 2"
    and lst: "snd (fst (get_path uniform_env ?S ?st) ! 1) = ?e"
    using inst [THEN conjunct1] inst [THEN conjunct2, THEN conjunct1]
    by (simp_all add: demo_shared_def)
  have hyp: "pos ?st = Point (Fin 0) (Fin 0) (Fin 0)
      \<and> dir ?st = Point (Fin 1) (Fin 0) (Fin 0) \<and> (1::real) * 1 + 0 * 0 + 0 * 0 = 1
      \<and> ?e = Point (Fin 0) (Fin 1) (Fin 0) \<and> (0::real) * 0 + 1 * 1 + 0 * 0 = 1
      \<and> - 1 < (0::real) * 1 + 1 * 0 + 0 * 0
      \<and> step_size ?S = Fin 1"
    by (simp add: demo_state_def demo_shared_def)
  note g = inst [THEN conjunct2, THEN conjunct2, THEN conjunct2, THEN conjunct2,
      rule_format, OF ex hyp]
  from g obtain t cx cy cz where
    t: "Fin (pi / 2) = Fin t"
    and c: "normalise uniform_env (psub uniform_env ?e (pscale uniform_env (Fin 0) (dir ?st)))
              = Point (Fin cx) (Fin cy) (Fin cz)"
    and smp: "\<forall>i < num_samples ?S.
                \<exists>x y z tx ty tz.
                  fst (get_path uniform_env ?S ?st) ! i
                    = (Point (Fin x) (Fin y) (Fin z), Point (Fin tx) (Fin ty) (Fin tz))
                  \<and> (x - (0 + 1 / t * cx)) ^ 2 + (y - (0 + 1 / t * cy)) ^ 2
                      + (z - (0 + 1 / t * cz)) ^ 2 = (1 / t) ^ 2
                  \<and> x - (0 + 1 / t * cx)
                      = 1 / t * (sin (t * real (i + 1) / real (num_samples ?S)) * 1
                                 - cos (t * real (i + 1) / real (num_samples ?S)) * cx)
                  \<and> y - (0 + 1 / t * cy)
                      = 1 / t * (sin (t * real (i + 1) / real (num_samples ?S)) * 0
                                 - cos (t * real (i + 1) / real (num_samples ?S)) * cy)
                  \<and> z - (0 + 1 / t * cz)
                      = 1 / t * (sin (t * real (i + 1) / real (num_samples ?S)) * 0
                                 - cos (t * real (i + 1) / real (num_samples ?S)) * cz)
                  \<and> tx * tx + ty * ty + tz * tz = 1
                  \<and> (x - (0 + 1 / t * cx)) * tx + (y - (0 + 1 / t * cy)) * ty
                      + (z - (0 + 1 / t * cz)) * tz = 0"
    by (elim exE conjE)
  have "0 < num_samples ?S" using n1 by simp
  from smp [rule_format, OF this] obtain x y z tx ty tz where
    s: "fst (get_path uniform_env ?S ?st) ! 0
              = (Point (Fin x) (Fin y) (Fin z), Point (Fin tx) (Fin ty) (Fin tz))"
       "(x - (0 + 1 / t * cx)) ^ 2 + (y - (0 + 1 / t * cy)) ^ 2
                      + (z - (0 + 1 / t * cz)) ^ 2 = (1 / t) ^ 2"
       "tx * tx + ty * ty + tz * tz = 1"
    by (elim exE conjE)
  have tv: "t = pi / 2" using t by simp
  have "cx = 0 \<and> cy = 1 \<and> cz = 0" using c unfolding cv by simp
  then have "x ^ 2 + (y - 2 / pi) ^ 2 + z ^ 2 = (2 / pi) ^ 2"
    using s(2) tv by simp
  then show ?thesis using ex tr len lst s(1,3) by blast
qed


text \<open>The facts about the rounded example.\<close>

lemma third_bounds: "0 < third" "3 * (third * third) < 1"
  by (simp_all add: third_def)

lemma rounded_one_bounds: "0 < rounded_one" "rounded_one < 1"
  by (simp_all add: rounded_one_def)

lemma rounded_theta_bounds: "0 < rounded_theta" "rounded_theta < pi"
  using arccos_lt_bounded [of rounded_one] rounded_one_bounds
  by (simp_all add: rounded_theta_def)

lemma exact_normalise_diagonal:
  assumes "0 < v"
  shows "exact_normalise (Point (Fin v) (Fin v) (Fin v))
      = Point (Fin (1 / sqrt 3)) (Fin (1 / sqrt 3)) (Fin (1 / sqrt 3))"
proof -
  have "v * v + v * v + v * v = 3 * v ^ 2" by (simp add: power2_eq_square)
  then have "sqrt (v * v + v * v + v * v) = sqrt 3 * v"
    using assms by (simp add: real_sqrt_mult)
  moreover have "v / (sqrt 3 * v) = 1 / sqrt 3" using assms by simp
  moreover have "sqrt 3 * v \<noteq> 0" using assms by simp
  ultimately show ?thesis by simp
qed

lemma rounded_curv:
  "normalise rounded_dot_env
     (psub rounded_dot_env (Point (Fin third) (Fin third) (Fin third))
        (pscale rounded_dot_env (Fin rounded_one) (Point (Fin third) (Fin third) (Fin third))))
     = Point (Fin (1 / sqrt 3)) (Fin (1 / sqrt 3)) (Fin (1 / sqrt 3))"
proof -
  have "0 < third - rounded_one * third"
    using third_bounds(1) rounded_one_bounds(2) by simp
  from exact_normalise_diagonal [OF this] show ?thesis
    by (simp add: rounded_dot_env_def demo_env_def ieee_sub_def)
qed

lemma rounded_angle:
  "path_angle rounded_dot_env (Point (Fin third) (Fin third) (Fin third))
      (Point (Fin third) (Fin third) (Fin third)) = (Fin rounded_one, Fin rounded_theta)"
  using rounded_one_bounds
  by (simp add: path_angle_def rounded_dot_env_def demo_env_def std_min_def rounded_theta_def)

lemma rounded_sample:
  "fst (get_path rounded_dot_env ((demo_shared (Fin 1))\<lparr>num_samples := 2\<rparr>)
          ((demo_state (Fin 1))\<lparr>dir := Point (Fin third) (Fin third) (Fin third)\<rparr>)) ! 0
     = (Point (Fin rounded_offset) (Fin rounded_offset) (Fin rounded_offset),
        Point (Fin (cos (rounded_theta / 2) * third + sin (rounded_theta / 2) * (1 / sqrt 3)))
              (Fin (cos (rounded_theta / 2) * third + sin (rounded_theta / 2) * (1 / sqrt 3)))
              (Fin (cos (rounded_theta / 2) * third + sin (rounded_theta / 2) * (1 / sqrt 3))))"
proof -
  let ?S = "(demo_shared (Fin 1))\<lparr>num_samples := 2\<rparr>"
  let ?st = "(demo_state (Fin 1))\<lparr>dir := Point (Fin third) (Fin third) (Fin third)\<rparr>"
  have S: "num_samples ?S = 2" "step_size ?S = Fin 1"
    by (simp_all add: demo_shared_def)
  have st: "rng ?st = 0" "dir ?st = Point (Fin third) (Fin third) (Fin third)"
    "pos ?st = Point (Fin 0) (Fin 0) (Fin 0)"
    by (simp_all add: demo_state_def)
  have rd: "rand_dir rounded_dot_env ?S 0 (Point (Fin third) (Fin third) (Fin third))
      = (Point (Fin third) (Fin third) (Fin third), 1)"
    by (simp add: rand_dir_def rounded_dot_env_def demo_env_def)
  have t0: "rounded_theta \<noteq> 0" using rounded_theta_bounds by simp
  have sp: "size_pred 2 = 1" by (simp add: size_pred_def size_max_def)
  have "fst (get_path rounded_dot_env ?S ?st) ! 0
      = arc_sample rounded_dot_env ?S ?st (Fin rounded_theta)
          (Point (Fin (1 / sqrt 3)) (Fin (1 / sqrt 3)) (Fin (1 / sqrt 3)))
          (fdiv rounded_dot_env (Fin 1) (Fin rounded_theta)) 0"
    using t0 by (simp add: get_path_def S st rd rounded_angle rounded_curv sp Let_def
        del: psub.simps pscale.simps)
  also have "\<dots> = (Point (Fin rounded_offset) (Fin rounded_offset) (Fin rounded_offset),
        Point (Fin (cos (rounded_theta / 2) * third + sin (rounded_theta / 2) * (1 / sqrt 3)))
              (Fin (cos (rounded_theta / 2) * third + sin (rounded_theta / 2) * (1 / sqrt 3)))
              (Fin (cos (rounded_theta / 2) * third + sin (rounded_theta / 2) * (1 / sqrt 3))))"
    using t0 by (simp add: arc_sample_def S st Let_def rounded_dot_env_def demo_env_def
        ieee_sub_def rounded_offset_def)
  finally show ?thesis .
qed

lemma rounded_off_circle:
  "3 * (rounded_offset - 1 / rounded_theta * (1 / sqrt 3)) ^ 2 \<noteq> (1 / rounded_theta) ^ 2"
proof -
  define s where "s = sin (rounded_theta / 2)"
  define k where "k = cos (rounded_theta / 2)"
  define R where "R = 1 / rounded_theta"
  define q where "q = sqrt 3 * third"
  define w where "w = q * s - k"
  have h: "0 < rounded_theta / 2" "rounded_theta / 2 < pi / 2"
    using rounded_theta_bounds by simp_all
  have s0: "0 < s" unfolding s_def using h by (intro sin_gt_zero) simp_all
  have s1: "s \<le> 1" unfolding s_def by simp
  have k0: "0 < k" unfolding k_def using h by (intro cos_gt_zero) simp_all
  have k1: "k \<le> 1" unfolding k_def by simp
  have "q ^ 2 = 3 * (third * third)"
    unfolding q_def by (simp add: power_mult_distrib) (simp add: power2_eq_square)
  then have "q ^ 2 < 1" using third_bounds(2) by simp
  then have "\<bar>q\<bar> < 1" by (simp add: abs_square_less_1)
  then have q1: "q < 1" by simp
  have q0: "0 < q" unfolding q_def using third_bounds(1) by simp
  have "q * s \<le> q" using q0 s1 by (intro mult_left_le) simp_all
  then have up: "w < 1" unfolding w_def using q1 k0 by linarith
  have "0 < q * s" using q0 s0 by simp
  then have lo: "- 1 < w" unfolding w_def using k1 by linarith
  have "\<bar>w\<bar> < 1" using up lo by simp
  then have w2: "w ^ 2 < 1" by (simp add: abs_square_less_1)
  have R0: "R \<noteq> 0" unfolding R_def using rounded_theta_bounds by simp
  have "rounded_offset - R * (1 / sqrt 3) = R * (s * third - k / sqrt 3)"
    by (simp add: rounded_offset_def R_def s_def k_def algebra_simps)
  then have "3 * (rounded_offset - R * (1 / sqrt 3)) ^ 2
      = R ^ 2 * (3 * (s * third - k / sqrt 3) ^ 2)"
    by (simp add: power_mult_distrib)
  also have "3 * (s * third - k / sqrt 3) ^ 2 = (sqrt 3 * (s * third - k / sqrt 3)) ^ 2"
    by (simp add: power_mult_distrib)
  also have "sqrt 3 * (s * third - k / sqrt 3) = w"
    by (simp add: w_def q_def algebra_simps)
  finally have eq: "3 * (rounded_offset - R * (1 / sqrt 3)) ^ 2 = R ^ 2 * w ^ 2" .
  have "R ^ 2 * w ^ 2 < R ^ 2 * 1"
    using R0 w2 by (intro mult_strict_left_mono) simp_all
  then have "3 * (rounded_offset - R * (1 / sqrt 3)) ^ 2 \<noteq> R ^ 2"
    using eq by linarith
  then show ?thesis unfolding R_def .
qed

text \<open>
  C9 as stated fails under rounding. The current direction is
  \<open>(third, third, third)\<close> and the end direction drawn is the same. In single precision
  \<open>third * third\<close> is rounded to \<open>11184810 / 2^25\<close> and the dot product of the direction
  with itself is \<open>rounded_one = 1 - 2^-24\<close>, so \<open>theta = acos (1 - 2^-24)\<close> is not
  zero and the curved case is taken, with two samples and the step size 1. Then
  \<open>curv\<close> is parallel to the direction, not orthogonal to it; the first sample lies on
  the straight line through the position along the direction, and it is not at the
  distance \<open>R = step_size / theta\<close> from the centre \<open>pos + R * curv\<close>.
\<close>

theorem get_path_curved_collinear:
  "third = 9686330 / 2 ^ 24
   \<and> \<bar>third * third - 11184810 / 2 ^ 25\<bar> < 1 / 2 ^ 26
   \<and> (11184810 / 2 ^ 25 + 11184810 / 2 ^ 25) + 11184810 / 2 ^ 25 = rounded_one
   \<and> path_angle rounded_dot_env (Point (Fin third) (Fin third) (Fin third))
        (Point (Fin third) (Fin third) (Fin third)) = (Fin rounded_one, Fin rounded_theta)
   \<and> truthy (Fin rounded_theta)
   \<and> normalise rounded_dot_env
        (psub rounded_dot_env (Point (Fin third) (Fin third) (Fin third))
           (pscale rounded_dot_env (Fin rounded_one) (Point (Fin third) (Fin third) (Fin third))))
       = Point (Fin (1 / sqrt 3)) (Fin (1 / sqrt 3)) (Fin (1 / sqrt 3))
   \<and> fst (fst (get_path rounded_dot_env ((demo_shared (Fin 1))\<lparr>num_samples := 2\<rparr>)
                 ((demo_state (Fin 1))\<lparr>dir := Point (Fin third) (Fin third) (Fin third)\<rparr>)) ! 0)
       = Point (Fin rounded_offset) (Fin rounded_offset) (Fin rounded_offset)
   \<and> 3 * (rounded_offset - 1 / rounded_theta * (1 / sqrt 3)) ^ 2 \<noteq> (1 / rounded_theta) ^ 2"
proof -
  have "\<bar>third * third - 11184810 / 2 ^ 25\<bar> < 1 / 2 ^ 26"
    by (simp add: third_def)
  moreover have "(11184810 / 2 ^ 25 + 11184810 / 2 ^ 25) + 11184810 / 2 ^ 25 = rounded_one"
    by (simp add: rounded_one_def)
  moreover have "truthy (Fin rounded_theta)" using rounded_theta_bounds by simp
  ultimately show ?thesis
    using rounded_angle rounded_curv rounded_off_circle
    by (simp add: rounded_sample) (simp add: third_def)
qed


text \<open>
  C4, as the code has it. \<open>cos_theta\<close> is the dot product of the end direction with
  the current direction, clamped from above only: it is never greater than 1, it is 1
  when the dot product is greater than 1, and it is the dot product itself in every
  other case, also below \<open>-1\<close>; \<open>theta\<close> is \<open>acos\<close> of it.
\<close>

theorem path_angle_upper_clamp:
  assumes "path_angle E end_dir d = (cos_theta, theta)"
  shows "theta = facos E cos_theta
    \<and> \<not> fgreater cos_theta (Fin 1)
    \<and> (if fgreater (dot E end_dir d) (Fin 1) then cos_theta = Fin 1
        else cos_theta = dot E end_dir d)"
  using assms by (auto simp: path_angle_def std_min_def fgreater_def Let_def)

theorem path_angle_upper_clamp_witness:
  "path_angle (demo_env (\<lambda>k. Point (Fin 1) (Fin 0) (Fin 0)) (\<lambda>d. Fin 1))
      (Point (Fin 2) (Fin 0) (Fin 0)) (Point (Fin 1) (Fin 0) (Fin 0)) = (Fin 1, Fin 0)
   \<and> fgreater (Fin 2) (Fin 1)"
  using path_angle_upper_clamp [of "demo_env (\<lambda>k. Point (Fin 1) (Fin 0) (Fin 0)) (\<lambda>d. Fin 1)"
      "Point (Fin 2) (Fin 0) (Fin 0)" "Point (Fin 1) (Fin 0) (Fin 0)" "Fin 1" "Fin 0"]
  by (simp add: demo_env_def path_angle_def std_min_def fgreater_def)

text \<open>
  C4 as stated fails: for the current direction \<open>(1, 0, 0)\<close> and an opposite end
  direction whose first component is one unit in the last place beyond \<open>-1\<close>, the dot
  product \<open>-(1 + 2^-23)\<close> is below \<open>-1\<close> and \<open>cos_theta\<close> is that value, not \<open>-1\<close>.
\<close>

theorem path_angle_no_lower_clamp:
  "fst (path_angle (demo_env (\<lambda>k. Point (Fin 1) (Fin 0) (Fin 0)) (\<lambda>d. Fin 1))
      (Point (Fin (- (1 + 1 / 2 ^ 23))) (Fin 0) (Fin 0)) (Point (Fin 1) (Fin 0) (Fin 0)))
     = Fin (- (1 + 1 / 2 ^ 23))
   \<and> fless (Fin (- (1 + 1 / 2 ^ 23))) (Fin (- 1))
   \<and> fst (path_angle (demo_env (\<lambda>k. Point (Fin 1) (Fin 0) (Fin 0)) (\<lambda>d. Fin 1))
      (Point (Fin (- (1 + 1 / 2 ^ 23))) (Fin 0) (Fin 0)) (Point (Fin 1) (Fin 0) (Fin 0)))
     \<noteq> Fin (- 1)"
  by (simp add: demo_env_def path_angle_def std_min_def)


section \<open>Path evaluation\<close>

lemma FOD_at_amp: "fst (FOD_at E S st p t) = fst (FOD_at E S st' p t)"
  by (simp add: FOD_at_def Let_def FOD_def split: option.splits)

lemma stored_within: "length path \<le> num_samples S \<Longrightarrow> stored E S path i = path ! i"
  by (simp add: stored_def)

lemma prob_loop_result:
  assumes within: "length path \<le> num_samples S"
  shows "fst (prob_loop E S path i prob st) =
     (if \<exists>j. i \<le> j \<and> j < num_samples S
            \<and> (isnan (sample_amp E S st0 path j) \<or> fless (sample_amp E S st0 path j) (threshold S))
      then None
      else Some (foldl (fmul E) prob (map (sample_amp E S st0 path) [i ..< num_samples S])))"
  using within
proof (induction E S path i prob st rule: prob_loop.induct)
  case (1 E S path i prob st)
  note sw = stored_within [OF "1.prems"]
  show ?case
  proof (cases "i < num_samples S")
    case False
    then show ?thesis by (simp add: prob_loop.simps [of E S path i])
  next
    case True
    obtain amp st' where f: "FOD_at E S st (fst (path ! i)) (snd (path ! i)) = (amp, st')"
      by (cases "FOD_at E S st (fst (path ! i)) (snd (path ! i))")
    have f': "(amp, st') = FOD_at E S st (fst (stored E S path i)) (snd (stored E S path i))"
      using f by (simp add: sw)
    have amp: "sample_amp E S st0 path i = amp"
      using f FOD_at_amp [of E S st0 _ _ st] by (simp add: sample_amp_def)
    show ?thesis
    proof (cases "isnan amp \<or> fless amp (threshold S)")
      case bad: True
      then have "fst (prob_loop E S path i prob st) = None"
        using True f by (simp add: prob_loop.simps [of E S path i] sw)
      moreover have "\<exists>j. i \<le> j \<and> j < num_samples S
            \<and> (isnan (sample_amp E S st0 path j) \<or> fless (sample_amp E S st0 path j) (threshold S))"
        using True bad amp by (intro exI [of _ i]) simp
      ultimately show ?thesis by simp
    next
      case good: False
      have step: "prob_loop E S path i prob st = prob_loop E S path (i + 1) (fmul E prob amp) st'"
        using True f good by (simp add: prob_loop.simps [of E S path i] sw)
      have ih: "fst (prob_loop E S path (i + 1) (fmul E prob amp) st') =
         (if \<exists>j. i + 1 \<le> j \<and> j < num_samples S
            \<and> (isnan (sample_amp E S st0 path j) \<or> fless (sample_amp E S st0 path j) (threshold S))
          then None
          else Some (foldl (fmul E) (fmul E prob amp) (map (sample_amp E S st0 path) [i + 1 ..< num_samples S])))"
        using "1.IH" [OF True f' good "1.prems"] by simp
      have ex: "(\<exists>j. i \<le> j \<and> j < num_samples S
            \<and> (isnan (sample_amp E S st0 path j) \<or> fless (sample_amp E S st0 path j) (threshold S)))
          \<longleftrightarrow> (\<exists>j. i + 1 \<le> j \<and> j < num_samples S
            \<and> (isnan (sample_amp E S st0 path j) \<or> fless (sample_amp E S st0 path j) (threshold S)))"
      proof
        assume "\<exists>j. i \<le> j \<and> j < num_samples S
            \<and> (isnan (sample_amp E S st0 path j) \<or> fless (sample_amp E S st0 path j) (threshold S))"
        then obtain j where j: "i \<le> j" "j < num_samples S"
          "isnan (sample_amp E S st0 path j) \<or> fless (sample_amp E S st0 path j) (threshold S)"
          by blast
        have "j \<noteq> i" using j(3) good amp by auto
        then show "\<exists>j. i + 1 \<le> j \<and> j < num_samples S
            \<and> (isnan (sample_amp E S st0 path j) \<or> fless (sample_amp E S st0 path j) (threshold S))"
          using j by (intro exI [of _ j]) simp
      next
        assume "\<exists>j. i + 1 \<le> j \<and> j < num_samples S
            \<and> (isnan (sample_amp E S st0 path j) \<or> fless (sample_amp E S st0 path j) (threshold S))"
        then show "\<exists>j. i \<le> j \<and> j < num_samples S
            \<and> (isnan (sample_amp E S st0 path j) \<or> fless (sample_amp E S st0 path j) (threshold S))"
          by (meson add_leD1)
      qed
      have upt: "[i ..< num_samples S] = i # [i + 1 ..< num_samples S]"
        using True by (simp add: upt_conv_Cons)
      show ?thesis
        unfolding step ih ex upt using amp by auto
    qed
  qed
qed

text \<open>
  C6, as the code has it. Let \<open>path\<close> be what \<open>get_path\<close> stored, within the arrays
  (\<open>num_samples\<close> pairs, with \<open>1 \<le> num_samples\<close>), and \<open>amps\<close> the amplitudes of its
  samples. If some amplitude is NaN or below the amplitude threshold,
  \<open>rand_path_prob\<close> returns NaN and leaves \<open>next_pos\<close> and \<open>next_dir\<close> as they were.
  Otherwise it returns the product of the amplitudes, taken from \<open>1.0\<close> in the order of
  the samples, and sets \<open>next_pos\<close> and \<open>next_dir\<close> to the position and tangent of the
  last sample. So the result is NaN exactly when some amplitude is NaN or below the
  threshold, or the product of the amplitudes is itself NaN.
\<close>

theorem rand_path_prob_result:
  assumes "1 \<le> num_samples S" and "num_samples S < size_max"
    and "path = fst (get_path E S (st\<lparr>trials := trials st + 1\<rparr>))"
    and "length path = num_samples S"
    and "amps = map (sample_amp E S st path) [0 ..< num_samples S]"
    and "rand_path_prob E S st next_pos next_dir = (val, next_pos', next_dir', st')"
  shows "((\<exists>a \<in> set amps. isnan a \<or> fless a (threshold S))
            \<longrightarrow> val = NaN \<and> next_pos' = next_pos \<and> next_dir' = next_dir)
    \<and> (\<not> (\<exists>a \<in> set amps. isnan a \<or> fless a (threshold S))
            \<longrightarrow> val = foldl (fmul E) (Fin 1) amps
              \<and> next_pos' = fst (path ! (num_samples S - 1))
              \<and> next_dir' = snd (path ! (num_samples S - 1)))
    \<and> (isnan val \<longleftrightarrow>
          (\<exists>a \<in> set amps. isnan a \<or> fless a (threshold S))
          \<or> isnan (foldl (fmul E) (Fin 1) amps))"
proof -
  have within: "length path \<le> num_samples S" using assms(4) by simp
  obtain s1 where g: "get_path E S (st\<lparr>trials := trials st + 1\<rparr>) = (path, s1)"
    using assms(3) by (cases "get_path E S (st\<lparr>trials := trials st + 1\<rparr>)") simp
  obtain res s2 where p: "prob_loop E S path 0 (Fin 1) s1 = (res, s2)"
    by (cases "prob_loop E S path 0 (Fin 1) s1")
  have bad: "(\<exists>a \<in> set amps. isnan a \<or> fless a (threshold S))
      \<longleftrightarrow> (\<exists>j. 0 \<le> j \<and> j < num_samples S
            \<and> (isnan (sample_amp E S st path j) \<or> fless (sample_amp E S st path j) (threshold S)))"
    by (auto simp: assms(5))
  have res: "res = (if \<exists>a \<in> set amps. isnan a \<or> fless a (threshold S) then None
                    else Some (foldl (fmul E) (Fin 1) amps))"
    using prob_loop_result [OF within, of E 0 "Fin 1" s1 st] p bad by (auto simp: assms(5))
  have out: "val = (case res of None \<Rightarrow> NaN | Some prob \<Rightarrow> prob)"
    "next_pos' = (case res of None \<Rightarrow> next_pos | Some prob \<Rightarrow> fst (path ! (num_samples S - 1)))"
    "next_dir' = (case res of None \<Rightarrow> next_dir | Some prob \<Rightarrow> snd (path ! (num_samples S - 1)))"
    using assms(6) g p size_pred_pos [OF assms(1,2)]
    by (auto simp: rand_path_prob_def stored_within [OF within] split: option.splits)
  show ?thesis
  proof (cases "\<exists>a \<in> set amps. isnan a \<or> fless a (threshold S)")
    case True
    then show ?thesis using res out by simp
  next
    case False
    then show ?thesis using res out by auto
  qed
qed

text \<open>
  Two samples of amplitude 2 on a quarter turn give the probability 4 and the end
  direction \<open>(0, 1, 0)\<close>.
\<close>

theorem rand_path_prob_result_witness:
  "length (fst (get_path uniform_env ((demo_shared (Fin 1))\<lparr>num_samples := 2\<rparr>)
                 ((demo_state (Fin 1))\<lparr>trials := 1\<rparr>))) = 2
   \<and> map (sample_amp uniform_env ((demo_shared (Fin 1))\<lparr>num_samples := 2\<rparr>) (demo_state (Fin 1))
         (fst (get_path uniform_env ((demo_shared (Fin 1))\<lparr>num_samples := 2\<rparr>)
                 ((demo_state (Fin 1))\<lparr>trials := 1\<rparr>)))) [0 ..< 2] = [Fin 2, Fin 2]
   \<and> fst (rand_path_prob uniform_env ((demo_shared (Fin 1))\<lparr>num_samples := 2\<rparr>) (demo_state (Fin 1))
            (Point NaN NaN NaN) (Point NaN NaN NaN)) = Fin 4
   \<and> fst (snd (snd (rand_path_prob uniform_env ((demo_shared (Fin 1))\<lparr>num_samples := 2\<rparr>)
            (demo_state (Fin 1)) (Point NaN NaN NaN) (Point NaN NaN NaN)))) = Point (Fin 0) (Fin 1) (Fin 0)"
proof -
  let ?S = "(demo_shared (Fin 1))\<lparr>num_samples := 2\<rparr>"
  have amps: "map (sample_amp uniform_env ?S (demo_state (Fin 1))
         (fst (get_path uniform_env ?S ((demo_state (Fin 1))\<lparr>trials := 1\<rparr>)))) [0 ..< 2]
      = [Fin 2, Fin 2]"
    by (simp add: sample_amp_def FOD_at_def FOD_def uniform_env_def demo_env_def demo_shared_def
        numeral_2_eq_2)
  obtain val p d s where r: "rand_path_prob uniform_env ?S
      (demo_state (Fin 1)) (Point NaN NaN NaN) (Point NaN NaN NaN) = (val, p, d, s)"
    by (metis prod_cases4)
  have n1: "1 \<le> num_samples ?S" and n2: "num_samples ?S < size_max"
    by (simp_all add: demo_shared_def size_max_def)
  have tr: "trials (demo_state (Fin 1)) + 1 = 1" and ns: "num_samples ?S = 2"
    by (simp_all add: demo_state_def demo_shared_def)
  have last: "snd (fst (get_path uniform_env ?S ((demo_state (Fin 1))\<lparr>trials := 1\<rparr>)) ! 1)
      = Point (Fin 0) (Fin 1) (Fin 0)"
    and len: "length (fst (get_path uniform_env ?S ((demo_state (Fin 1))\<lparr>trials := 1\<rparr>))) = 2"
    by (simp_all add: demo_shared_def demo_state_def get_path_def uniform_env_def
        demo_env_def rand_dir_def path_angle_def std_min_def size_pred_def size_max_def Let_def)
  have len': "length (fst (get_path uniform_env ?S
      ((demo_state (Fin 1))\<lparr>trials := trials (demo_state (Fin 1)) + 1\<rparr>))) = num_samples ?S"
    unfolding tr ns by (rule len)
  have "val = Fin 4 \<and> d = Point (Fin 0) (Fin 1) (Fin 0)"
    using rand_path_prob_result [OF n1 n2 refl len' refl r]
    unfolding tr ns amps using last by (simp add: uniform_env_def demo_env_def demo_shared_def)
  then show ?thesis using amps r len by simp
qed

text \<open>
  C6 as stated fails. In \<open>zero_inf_env\<close> with the amplitude threshold 0 and two
  samples, the first sample has the amplitude 0 and the second an infinite amplitude:
  neither is NaN or below the threshold, and the product \<open>1 * 0 * inf\<close> that
  \<open>rand_path_prob\<close> returns is NaN.
\<close>

theorem rand_path_prob_nan_product:
  "threshold ((demo_shared (Fin 0))\<lparr>num_samples := 2\<rparr>) = Fin 0
   \<and> length (fst (get_path zero_inf_env ((demo_shared (Fin 0))\<lparr>num_samples := 2\<rparr>)
                 ((demo_state (Fin 1))\<lparr>trials := 1\<rparr>))) = 2
   \<and> map (sample_amp zero_inf_env ((demo_shared (Fin 0))\<lparr>num_samples := 2\<rparr>) (demo_state (Fin 1))
         (fst (get_path zero_inf_env ((demo_shared (Fin 0))\<lparr>num_samples := 2\<rparr>)
                 ((demo_state (Fin 1))\<lparr>trials := 1\<rparr>)))) [0 ..< 2] = [Fin 0, PosInf]
   \<and> \<not> (isnan (Fin 0) \<or> fless (Fin 0) (Fin 0))
   \<and> \<not> (isnan PosInf \<or> fless PosInf (Fin 0))
   \<and> fmul zero_inf_env (fmul zero_inf_env (Fin 1) (Fin 0)) PosInf = NaN
   \<and> fst (rand_path_prob zero_inf_env ((demo_shared (Fin 0))\<lparr>num_samples := 2\<rparr>)
            (demo_state (Fin 1)) (Point NaN NaN NaN) (Point NaN NaN NaN)) = NaN
   \<and> fst (snd (snd (rand_path_prob zero_inf_env ((demo_shared (Fin 0))\<lparr>num_samples := 2\<rparr>)
            (demo_state (Fin 1)) (Point NaN NaN NaN) (Point NaN NaN NaN)))) = Point (Fin 0) (Fin 1) (Fin 0)"
proof -
  let ?S = "(demo_shared (Fin 0))\<lparr>num_samples := 2\<rparr>"
  let ?st = "demo_state (Fin 1)"
  let ?s0 = "(Point (Fin (2 / pi * sin (pi / 4))) (Fin (2 / pi * (1 - cos (pi / 4)))) (Fin 0),
          Point (Fin (cos (pi / 4))) (Fin (sin (pi / 4))) (Fin 0))"
  let ?s1 = "(Point (Fin (2 / pi)) (Fin (2 / pi)) (Fin 0), Point (Fin 0) (Fin 1) (Fin 0))"
  have S: "num_samples ?S = 2" "threshold ?S = Fin 0" "lmax ?S = 8" "precomputer ?S = None"
    by (simp_all add: demo_shared_def)
  have sp: "size_pred 2 = 1" by (simp add: size_pred_def size_max_def)
  have u: "[0 ..< 2::nat] = [0, 1]" by (simp add: numeral_2_eq_2)
  have tr: "?st\<lparr>trials := trials ?st + 1\<rparr> = ?st\<lparr>trials := 1\<rparr>"
    "?st\<lparr>trials := Suc (trials ?st)\<rparr> = ?st\<lparr>trials := 1\<rparr>"
    by (simp_all add: demo_state_def)
  have gp: "get_path zero_inf_env ?S (?st\<lparr>trials := 1\<rparr>)
      = ([?s0, ?s1], ?st\<lparr>trials := 1, rng := 1\<rparr>)"
    by (simp add: get_path_def zero_inf_env_def demo_env_def demo_shared_def demo_state_def
        rand_dir_def path_angle_def std_min_def sp Let_def arc_sample_def ieee_sub_def)
  have a0: "sample_amp zero_inf_env ?S ?st [?s0, ?s1] 0 = Fin 0"
    and a1: "sample_amp zero_inf_env ?S ?st [?s0, ?s1] 1 = PosInf"
    by (simp_all add: sample_amp_def FOD_at_def FOD_def S zero_inf_env_def demo_env_def cos_45)
  have f0: "FOD_at zero_inf_env ?S s (fst ?s0) (snd ?s0) = (Fin 0, s\<lparr>values := []\<rparr>)"
    and f1: "FOD_at zero_inf_env ?S s (fst ?s1) (snd ?s1) = (PosInf, s\<lparr>values := []\<rparr>)" for s
    by (simp_all add: FOD_at_def FOD_def S zero_inf_env_def demo_env_def cos_45)
  have mul: "fmul zero_inf_env (fmul zero_inf_env (Fin 1) (Fin 0)) PosInf = NaN"
    by (simp add: zero_inf_env_def demo_env_def signed_inf_def)
  have p2: "prob_loop zero_inf_env ?S path (Suc (Suc 0)) prob s = (Some prob, s)" for path prob s
    by (subst prob_loop.simps) (simp add: S)
  have p1: "prob_loop zero_inf_env ?S [a, ?s1] (Suc 0) prob s
      = (Some (fmul zero_inf_env prob PosInf), s\<lparr>values := []\<rparr>)" for a prob s
    using f1 [of s] by (subst prob_loop.simps) (simp add: S stored_def p2)
  have pl: "fst (prob_loop zero_inf_env ?S [?s0, ?s1] 0 (Fin 1) s) = Some NaN" for s
    using f0 [of s] mul by (subst prob_loop.simps) (simp add: S stored_def p1)
  let ?s' = "?st\<lparr>trials := 1, rng := 1\<rparr>"
  have g: "get_path zero_inf_env ?S (?st\<lparr>trials := trials ?st + 1\<rparr>) = ([?s0, ?s1], ?s')"
    unfolding tr(1) by (rule gp)
  obtain st2 where pl': "prob_loop zero_inf_env ?S [?s0, ?s1] 0 (Fin 1) ?s' = (Some NaN, st2)"
    using pl [of ?s'] by (metis prod.collapse)
  have sto: "stored zero_inf_env ?S [?s0, ?s1] (size_pred (num_samples ?S)) = ?s1"
    by (simp add: stored_def S sp)
  have "rand_path_prob zero_inf_env ?S ?st (Point NaN NaN NaN) (Point NaN NaN NaN)
      = (NaN, fst ?s1, snd ?s1, st2)"
    by (simp only: rand_path_prob_def g prod.case pl' option.case sto)
  hence rp: "fst (rand_path_prob zero_inf_env ?S ?st (Point NaN NaN NaN) (Point NaN NaN NaN)) = NaN"
    "fst (snd (snd (rand_path_prob zero_inf_env ?S ?st (Point NaN NaN NaN) (Point NaN NaN NaN))))
       = Point (Fin 0) (Fin 1) (Fin 0)"
    by simp_all
  show ?thesis
    unfolding gp u using rp mul a0 a1 by (simp add: S)
qed


section \<open>One step of the tracker\<close>

lemma frame_refl: "frame st st"
  by (simp add: frame_def)

lemma frame_trans: "frame a b \<Longrightarrow> frame b c \<Longrightarrow> frame a c"
  by (simp add: frame_def)

lemma fgreater_strict: "fgreater a b \<Longrightarrow> \<not> isnan a \<and> a \<noteq> b \<and> \<not> fless a b"
  by (cases a; cases b) (auto simp: fgreater_def)

lemma get_path_frame:
  "get_path E S st = (path, st') \<Longrightarrow> frame st st' \<and> trials st' = trials st"
  by (auto simp: get_path_def frame_def Let_def split: prod.splits if_splits)

lemma FOD_at_frame:
  "FOD_at E S st p t = (a, st') \<Longrightarrow> frame st st' \<and> trials st' = trials st \<and> rng st' = rng st"
  by (auto simp: FOD_at_def frame_def Let_def split: option.splits)

lemma prob_loop_frame:
  "prob_loop E S path i prob st = (res, st')
     \<Longrightarrow> frame st st' \<and> trials st' = trials st \<and> rng st' = rng st"
proof (induction E S path i prob st arbitrary: res st' rule: prob_loop.induct)
  case (1 E S path i prob st)
  show ?case
  proof (cases "i < num_samples S")
    case False
    then show ?thesis using "1.prems" by (simp add: prob_loop.simps [of E S path i] frame_refl)
  next
    case True
    obtain amp s1 where
      f: "FOD_at E S st (fst (stored E S path i)) (snd (stored E S path i)) = (amp, s1)"
      by (cases "FOD_at E S st (fst (stored E S path i)) (snd (stored E S path i))")
    note fr = FOD_at_frame [OF f]
    show ?thesis
    proof (cases "isnan amp \<or> fless amp (threshold S)")
      case True
      then show ?thesis
        using \<open>i < num_samples S\<close> f fr "1.prems" by (simp add: prob_loop.simps [of E S path i])
    next
      case False
      have "prob_loop E S path (i + 1) (fmul E prob amp) s1 = (res, st')"
        using True f False "1.prems" by (simp add: prob_loop.simps [of E S path i])
      from "1.IH" [OF True f [symmetric] False this] fr show ?thesis
        by (auto intro: frame_trans)
    qed
  qed
qed

lemma rand_path_prob_frame:
  assumes "rand_path_prob E S st np nd = (val, np', nd', st')"
  shows "frame st st' \<and> trials st' = trials st + 1"
proof -
  obtain path s1 where g: "get_path E S (st\<lparr>trials := trials st + 1\<rparr>) = (path, s1)"
    by (cases "get_path E S (st\<lparr>trials := trials st + 1\<rparr>)")
  obtain res s2 where p: "prob_loop E S path 0 (Fin 1) s1 = (res, s2)"
    by (cases "prob_loop E S path 0 (Fin 1) s1")
  have "st' = s2" using assms g p by (auto simp: rand_path_prob_def split: option.splits)
  moreover have "frame st (st\<lparr>trials := trials st + 1\<rparr>)" by (simp add: frame_def)
  ultimately show ?thesis
    using get_path_frame [OF g] prob_loop_frame [OF p] by (auto intro: frame_trans)
qed

lemma probe_loop_frame:
  "probe_loop E S n np nd m st = (m', np', nd', st') \<Longrightarrow> n \<le> 100
     \<Longrightarrow> frame st st' \<and> trials st' = trials st + (100 - n)"
proof (induction E S n np nd m st arbitrary: m' np' nd' st' rule: probe_loop.induct)
  case (1 E S n np nd m st)
  show ?case
  proof (cases "n < 100")
    case False
    then have "probe_loop E S n np nd m st = (m, np, nd, st)"
      by (subst probe_loop.simps) simp
    then show ?thesis using "1.prems" False by (simp add: frame_refl)
  next
    case True
    obtain val p d s1 where r: "rand_path_prob E S st np nd = (val, p, d, s1)"
      by (cases "rand_path_prob E S st np nd") auto
    have "probe_loop E S (n + 1) p d (if fgreater val m then val else m) s1 = (m', np', nd', st')"
      using True r "1.prems" by (simp add: probe_loop.simps [of E S n])
    from "1.IH" [OF True r [symmetric] refl refl this] True rand_path_prob_frame [OF r]
    show ?thesis by (auto intro: frame_trans)
  qed
qed

lemma sample_loop_reject:
  "sample_loop E S mv n nmax np nd st = (False, st') \<Longrightarrow> n \<le> nmax
     \<Longrightarrow> frame st st' \<and> trials st' = trials st + (nmax - n)"
proof (induction E S mv n nmax np nd st arbitrary: st' rule: sample_loop.induct)
  case (1 E S mv n nmax np nd st)
  show ?case
  proof (cases "n < nmax")
    case False
    then have "sample_loop E S mv n nmax np nd st = (False, st)"
      by (subst sample_loop.simps) simp
    then show ?thesis using "1.prems" False by (simp add: frame_refl)
  next
    case True
    obtain val p d s1 where r: "rand_path_prob E S st np nd = (val, p, d, s1)"
      by (cases "rand_path_prob E S st np nd") auto
    note fr = rand_path_prob_frame [OF r]
    show ?thesis
    proof (cases "fgreater val (prob_threshold S)")
      case False
      have "sample_loop E S mv (n + 1) nmax p d s1 = (False, st')"
        using True r False "1.prems" by (subst (asm) sample_loop.simps) simp
      from "1.IH"(2) [OF True r [symmetric] refl refl False this] True fr
      show ?thesis by (auto intro: frame_trans)
    next
      case gt: True
      obtain u r' where u: "rng_uniform E (rng s1) = (u, r')"
        by (cases "rng_uniform E (rng s1)")
      have nacc: "\<not> fless u (fdiv E val mv)"
        using True r gt u "1.prems" by (subst (asm) sample_loop.simps) (auto split: if_splits)
      have "sample_loop E S mv (n + 1) nmax p d (s1\<lparr>rng := r'\<rparr>) = (False, st')"
        using True r gt u nacc "1.prems" by (subst (asm) sample_loop.simps) simp
      from "1.IH"(1) [OF True r [symmetric] refl refl gt u [symmetric] nacc this] True fr
      show ?thesis by (auto simp: frame_def)
    qed
  qed
qed

text \<open>
  An accepted step comes from one iteration \<open>k\<close> of the sampling loop: the candidate
  evaluated there exceeded the threshold and passed the acceptance test, and the final
  state is the state after that evaluation with the new direction, position and
  counters.
\<close>

lemma sample_loop_accept:
  "sample_loop E S mv n nmax np nd st = (True, st') \<Longrightarrow>
     \<exists>k s np0 nd0 val p d s1 u r.
       n \<le> k \<and> k < nmax \<and> frame st s \<and> trials s = trials st + (k - n)
       \<and> rand_path_prob E S s np0 nd0 = (val, p, d, s1)
       \<and> fgreater val (prob_threshold S)
       \<and> rng_uniform E (rng s1) = (u, r) \<and> fless u (fdiv E val mv)
       \<and> st' = s1\<lparr>rng := r, dir := normalise E d, pos := p,
                     mean_sample_num := size_add (mean_sample_num s1) k,
                     num_sample_runs := size_add (num_sample_runs s1) 1\<rparr>"
proof (induction E S mv n nmax np nd st arbitrary: st' rule: sample_loop.induct)
  case (1 E S mv n nmax np nd st)
  show ?case
  proof (cases "n < nmax")
    case False
    then have "sample_loop E S mv n nmax np nd st = (False, st)"
      by (subst sample_loop.simps) simp
    then show ?thesis using "1.prems" by simp
  next
    case True
    obtain val p d s1 where r: "rand_path_prob E S st np nd = (val, p, d, s1)"
      by (cases "rand_path_prob E S st np nd") auto
    note fr = rand_path_prob_frame [OF r]
    show ?thesis
    proof (cases "fgreater val (prob_threshold S)")
      case False
      have "sample_loop E S mv (n + 1) nmax p d s1 = (True, st')"
        using True r False "1.prems" by (subst (asm) sample_loop.simps) simp
      from "1.IH"(2) [OF True r [symmetric] refl refl False this]
      obtain k s np0 nd0 val0 p0 d0 s0 u0 r0 where k: "n + 1 \<le> k" "k < nmax" "frame s1 s"
        "trials s = trials s1 + (k - (n + 1))"
        "rand_path_prob E S s np0 nd0 = (val0, p0, d0, s0)"
        "fgreater val0 (prob_threshold S)"
        "rng_uniform E (rng s0) = (u0, r0)" "fless u0 (fdiv E val0 mv)"
        "st' = s0\<lparr>rng := r0, dir := normalise E d0, pos := p0,
                     mean_sample_num := size_add (mean_sample_num s0) k,
                     num_sample_runs := size_add (num_sample_runs s0) 1\<rparr>"
        by blast
      have "n \<le> k \<and> k < nmax \<and> frame st s \<and> trials s = trials st + (k - n)"
        using k(1-4) fr by (auto intro: frame_trans)
      then show ?thesis using k(5-9) by blast
    next
      case gt: True
      obtain u r' where u: "rng_uniform E (rng s1) = (u, r')"
        by (cases "rng_uniform E (rng s1)")
      show ?thesis
      proof (cases "fless u (fdiv E val mv)")
        case acc: True
        have "st' = s1\<lparr>rng := r', dir := normalise E d, pos := p,
                      mean_sample_num := size_add (mean_sample_num s1) n,
                      num_sample_runs := size_add (num_sample_runs s1) 1\<rparr>"
          using True r gt u acc "1.prems" by (subst (asm) sample_loop.simps) simp
        moreover have "n \<le> n \<and> n < nmax \<and> frame st st \<and> trials st = trials st + (n - n)"
          using True by (simp add: frame_refl)
        ultimately show ?thesis using r gt u acc by blast
      next
        case nacc: False
        have "sample_loop E S mv (n + 1) nmax p d (s1\<lparr>rng := r'\<rparr>) = (True, st')"
          using True r gt u nacc "1.prems" by (subst (asm) sample_loop.simps) simp
        from "1.IH"(1) [OF True r [symmetric] refl refl gt u [symmetric] nacc this]
        obtain k s np0 nd0 val0 p0 d0 s0 u0 r0 where k: "n + 1 \<le> k" "k < nmax"
          "frame (s1\<lparr>rng := r'\<rparr>) s"
          "trials s = trials (s1\<lparr>rng := r'\<rparr>) + (k - (n + 1))"
          "rand_path_prob E S s np0 nd0 = (val0, p0, d0, s0)"
          "fgreater val0 (prob_threshold S)"
          "rng_uniform E (rng s0) = (u0, r0)" "fless u0 (fdiv E val0 mv)"
          "st' = s0\<lparr>rng := r0, dir := normalise E d0, pos := p0,
                     mean_sample_num := size_add (mean_sample_num s0) k,
                     num_sample_runs := size_add (num_sample_runs s0) 1\<rparr>"
          by blast
        have "n \<le> k \<and> k < nmax \<and> frame st s \<and> trials s = trials st + (k - n)"
          using k(1-4) fr by (auto simp: frame_def)
        then show ?thesis using k(5-9) by blast
      qed
    qed
  qed
qed


text \<open>The examples, evaluated.\<close>

lemmas demo_eval =
  late_env_def rising_env_def uniform_env_def demo_env_def demo_shared_def demo_state_def
  next_step_def probe_loop.simps sample_loop.simps prob_loop.simps
  rand_path_prob_def get_path_def rand_dir_def path_angle_def std_min_def
  size_pred_def size_add_def size_max_def FOD_at_def FOD_def MAX_macro_def fgreater_def
  stored_def ieee_sub_def signed_inf_def arc_sample_def

lemma late_probe:
  "probe_loop late_env (demo_shared (Fin 1)) 0 (Point NaN NaN NaN) (Point NaN NaN NaN) (Fin 0)
      (demo_state prev)
     = (Fin 0, Point NaN NaN NaN, Point NaN NaN NaN, (demo_state prev)\<lparr>rng := 100, trials := 100\<rparr>)"
  by (simp add: demo_eval)

lemma late_next_fail:
  "next_step late_env (demo_shared (Fin 1)) (demo_state (Fin (3 / 4)))
     = (False, (demo_state (Fin 0))\<lparr>rng := 100, trials := 100\<rparr>)"
  by (simp add: demo_eval)

lemma late_sample:
  "sample_loop late_env (demo_shared (Fin 1)) (Fin (9 / 8)) 0 100 (Point NaN NaN NaN) (Point NaN NaN NaN)
      ((demo_state (Fin 0))\<lparr>rng := 100, trials := 100\<rparr>)
     = (True, (demo_state (Fin 0))\<lparr>rng := 102, trials := 101, dir := Point (Fin 0) (Fin 0) (Fin 1),
                pos := Point (Fin (2 / pi)) (Fin 0) (Fin (2 / pi)), num_sample_runs := 1\<rparr>)"
  by (simp add: demo_eval)

lemma late_next_ok:
  "next_step late_env (demo_shared (Fin 1)) (demo_state (Fin 1))
     = (True, (demo_state (Fin 0))\<lparr>rng := 102, trials := 101, dir := Point (Fin 0) (Fin 0) (Fin 1),
                pos := Point (Fin (2 / pi)) (Fin 0) (Fin (2 / pi)), num_sample_runs := 1\<rparr>)"
  by (simp add: demo_eval)

lemma rising_probe:
  "probe_loop rising_env (demo_shared (Fin 1)) 0 (Point NaN NaN NaN) (Point NaN NaN NaN) (Fin 0)
      (demo_state (Fin 1))
     = (Fin 2, Point (Fin (2 / pi)) (Fin (2 / pi)) (Fin 0), Point (Fin 0) (Fin 1) (Fin 0),
        (demo_state (Fin 1))\<lparr>rng := 100, trials := 100\<rparr>)"
  by (simp add: demo_eval)

lemma rising_next:
  "next_step rising_env (demo_shared (Fin 1)) (demo_state (Fin 1))
     = (True, (demo_state (Fin 2))\<lparr>rng := 102, trials := 101, dir := Point (Fin 0) (Fin 0) (Fin 1),
                pos := Point (Fin (2 / pi)) (Fin 0) (Fin (2 / pi)), num_sample_runs := 1\<rparr>)"
  by (simp add: demo_eval)

lemma rising_candidate:
  "rand_path_prob rising_env (demo_shared (Fin 1)) ((demo_state (Fin 2))\<lparr>rng := 100, trials := 100\<rparr>)
      (Point (Fin (2 / pi)) (Fin (2 / pi)) (Fin 0)) (Point (Fin 0) (Fin 1) (Fin 0))
     = (Fin 4, Point (Fin (2 / pi)) (Fin 0) (Fin (2 / pi)), Point (Fin 0) (Fin 0) (Fin 1),
        (demo_state (Fin 2))\<lparr>rng := 101, trials := 101\<rparr>)"
  by (simp add: demo_eval)

lemma uniform_next:
  "next_step uniform_env (demo_shared (Fin 1)) (demo_state (Fin 1))
     = (True, (demo_state (Fin 2))\<lparr>rng := 102, trials := 101, dir := Point (Fin 0) (Fin 1) (Fin 0),
                pos := Point (Fin (2 / pi)) (Fin (2 / pi)) (Fin 0), num_sample_runs := 1\<rparr>)"
  by (simp add: demo_eval)


text \<open>
  C2, as the code has it. Let \<open>max_val_actual\<close> be the best probability of the probe
  and \<open>max_val = MAX (prev_prob_val, max_val_actual)\<close>. The termination test is made on
  \<open>max_val\<close> itself, before the multiplication: if \<open>max_val\<close> is NaN or below
  \<open>prob_threshold\<close>, \<open>next\<close> returns false with no sampling trial (only the 100
  trials of the probe). Otherwise \<open>next\<close> is the sampling loop run against the
  envelope \<open>max_val * 1.5\<close>, with 10000 trials when \<open>max_val_actual\<close> exceeds
  \<open>prob_threshold\<close> and \<open>max_trials\<close> otherwise.
\<close>

theorem next_step_check_before_scaling:
  assumes "probe_loop E S 0 (Point NaN NaN NaN) (Point NaN NaN NaN) (Fin 0) st
             = (max_val_actual, next_pos, next_dir, st1)"
    and "max_val = MAX_macro (prev_prob_val st) max_val_actual"
  shows "(isnan max_val \<or> fless max_val (prob_threshold S) \<longrightarrow>
            next_step E S st = (False, st1\<lparr>prev_prob_val := max_val_actual\<rparr>)
            \<and> trials st1 = trials st + 100)
    \<and> (\<not> (isnan max_val \<or> fless max_val (prob_threshold S)) \<longrightarrow>
            next_step E S st =
              sample_loop E S (fmul E max_val (Fin (3 / 2))) 0
                (if fgreater max_val_actual (prob_threshold S) then 10000 else max_trials S)
                next_pos next_dir (st1\<lparr>prev_prob_val := max_val_actual\<rparr>))"
proof -
  have fr: "frame st st1 \<and> trials st1 = trials st + (100 - 0)"
    using probe_loop_frame [OF assms(1)] by simp
  then have "prev_prob_val st1 = prev_prob_val st" by (simp add: frame_def)
  then show ?thesis using assms fr by (simp add: next_step_def Let_def)
qed

text \<open>
  With the previous probability \<open>0.75\<close>, the threshold 1 and a probe that finds nothing,
  \<open>max_val = 0.75\<close> is below the threshold and the step fails after the probe.
\<close>

theorem next_step_check_before_scaling_witness:
  "fless (MAX_macro (prev_prob_val (demo_state (Fin (3 / 4)))) (Fin 0)) (prob_threshold (demo_shared (Fin 1)))
   \<and> next_step late_env (demo_shared (Fin 1)) (demo_state (Fin (3 / 4)))
       = (False, (demo_state (Fin 0))\<lparr>rng := 100, trials := 100\<rparr>)"
  using next_step_check_before_scaling [OF late_probe refl, of "Fin (3 / 4)"]
  by (simp add: MAX_macro_def fgreater_def demo_shared_def demo_state_def)

text \<open>
  C2 as stated fails. In \<open>late_env\<close> with the previous probability \<open>0.75\<close> and the
  threshold 1, the probe finds nothing (\<open>max_val_actual = 0\<close>). The value of the claim,
  \<open>MAX (0.75, 0) * 1.5 = 1.125\<close>, is finite and not below the threshold, and the
  sampling loop run against it would accept its first candidate; but \<open>next\<close> returns
  false after the 100 trials of the probe, without sampling.
\<close>

theorem next_step_check_ignores_scaling:
  "fst (probe_loop late_env (demo_shared (Fin 1)) 0 (Point NaN NaN NaN) (Point NaN NaN NaN) (Fin 0)
          (demo_state (Fin (3 / 4)))) = Fin 0
   \<and> fmul late_env (MAX_macro (prev_prob_val (demo_state (Fin (3 / 4)))) (Fin 0)) (Fin (3 / 2))
       = Fin (9 / 8)
   \<and> finite_val (Fin (9 / 8))
   \<and> \<not> fless (Fin (9 / 8)) (prob_threshold (demo_shared (Fin 1)))
   \<and> fst (next_step late_env (demo_shared (Fin 1)) (demo_state (Fin (3 / 4)))) = False
   \<and> trials (snd (next_step late_env (demo_shared (Fin 1)) (demo_state (Fin (3 / 4))))) = 100
   \<and> fst (sample_loop late_env (demo_shared (Fin 1)) (Fin (9 / 8)) 0
            (max_trials (demo_shared (Fin 1))) (Point NaN NaN NaN) (Point NaN NaN NaN)
            ((demo_state (Fin 0))\<lparr>rng := 100, trials := 100\<rparr>)) = True"
proof -
  have "max_trials (demo_shared (Fin 1)) = 100" by (simp add: demo_shared_def)
  then show ?thesis
    using late_sample
    by (simp add: late_probe late_next_fail)
       (simp add: late_env_def demo_env_def MAX_macro_def fgreater_def demo_state_def demo_shared_def)
qed

text \<open>
  C3, as the code has it. \<open>next\<close> sets \<open>prev_prob_val\<close> to the best probability of the
  probe, \<open>max_val_actual\<close>, before the termination test, so on every return. The
  position, the direction and the two counters are unchanged when the step is not
  accepted. On acceptance \<open>num_sample_runs\<close> is incremented and \<open>mean_sample_num\<close> grows
  by the index \<open>n\<close> of the accepted trial, which is below the trial budget.
\<close>

theorem next_step_state_updates:
  assumes "probe_loop E S 0 (Point NaN NaN NaN) (Point NaN NaN NaN) (Fin 0) st
             = (max_val_actual, next_pos, next_dir, st1)"
    and "next_step E S st = (accepted, st')"
  shows "prev_prob_val st' = max_val_actual
    \<and> (\<not> accepted \<longrightarrow>
          mean_sample_num st' = mean_sample_num st \<and> num_sample_runs st' = num_sample_runs st
          \<and> pos st' = pos st \<and> dir st' = dir st)
    \<and> (accepted \<longrightarrow>
          num_sample_runs st' = size_add (num_sample_runs st) 1
          \<and> (\<exists>n < (if fgreater max_val_actual (prob_threshold S) then 10000 else max_trials S).
                mean_sample_num st' = size_add (mean_sample_num st) n))"
proof -
  define max_val where "max_val = MAX_macro (prev_prob_val st) max_val_actual"
  define st2 where "st2 = st1\<lparr>prev_prob_val := max_val_actual\<rparr>"
  define nmax where "nmax = (if fgreater max_val_actual (prob_threshold S) then 10000 else max_trials S)"
  have fr: "frame st st1" using probe_loop_frame [OF assms(1)] by simp
  have fr2: "pos st2 = pos st" "dir st2 = dir st" "mean_sample_num st2 = mean_sample_num st"
    "num_sample_runs st2 = num_sample_runs st" "prev_prob_val st2 = max_val_actual"
    using fr by (simp_all add: st2_def frame_def)
  have prev: "prev_prob_val st1 = prev_prob_val st" using fr by (simp add: frame_def)
  show ?thesis
  proof (cases "isnan max_val \<or> fless max_val (prob_threshold S)")
    case True
    then have "next_step E S st = (False, st2)"
      using assms(1) prev by (simp add: next_step_def Let_def max_val_def st2_def)
    then show ?thesis using assms(2) fr2 by auto
  next
    case False
    then have run: "sample_loop E S (fmul E max_val (Fin (3 / 2))) 0 nmax next_pos next_dir st2
        = (accepted, st')"
      using assms prev by (simp add: next_step_def Let_def max_val_def st2_def nmax_def)
    show ?thesis
    proof (cases accepted)
      case False
      then have "frame st2 st'" using sample_loop_reject [of E S _ 0 nmax _ _ st2 st'] run by simp
      then show ?thesis using False fr2 by (simp add: frame_def)
    next
      case True
      then have "sample_loop E S (fmul E max_val (Fin (3 / 2))) 0 nmax next_pos next_dir st2
          = (True, st')" using run by simp
      from sample_loop_accept [OF this]
      obtain k s np0 nd0 val p d s1 u r where k: "k < nmax" "frame st2 s"
        "rand_path_prob E S s np0 nd0 = (val, p, d, s1)"
        "st' = s1\<lparr>rng := r, dir := normalise E d, pos := p,
                     mean_sample_num := size_add (mean_sample_num s1) k,
                     num_sample_runs := size_add (num_sample_runs s1) 1\<rparr>"
        by blast
      have "frame s s1" using rand_path_prob_frame [OF k(3)] by simp
      then have "frame st2 s1" using k(2) by (rule frame_trans [rotated])
      then have "prev_prob_val st' = max_val_actual"
        "num_sample_runs st' = size_add (num_sample_runs st) 1"
        "mean_sample_num st' = size_add (mean_sample_num st) k"
        using k(4) fr2 by (simp_all add: frame_def)
      then show ?thesis using True k(1) unfolding nmax_def by blast
    qed
  qed
qed

text \<open>
  In \<open>rising_env\<close> the probe's best probability is 2 and the accepted path has the
  probability 4: the step is accepted at the first trial and \<open>prev_prob_val\<close> is 2.
\<close>

theorem next_step_state_updates_witness:
  "fst (next_step rising_env (demo_shared (Fin 1)) (demo_state (Fin 1))) = True
   \<and> prev_prob_val (snd (next_step rising_env (demo_shared (Fin 1)) (demo_state (Fin 1)))) = Fin 2
   \<and> num_sample_runs (snd (next_step rising_env (demo_shared (Fin 1)) (demo_state (Fin 1)))) = 1
   \<and> mean_sample_num (snd (next_step rising_env (demo_shared (Fin 1)) (demo_state (Fin 1)))) = 0"
  using next_step_state_updates [OF rising_probe rising_next]
  unfolding rising_next by (simp add: demo_state_def)

text \<open>
  C3 as stated fails on both returns. In \<open>late_env\<close> the step started with
  \<open>prev_prob_val = 0.75\<close> is not accepted, and \<open>prev_prob_val\<close> is 0 afterwards. In
  \<open>rising_env\<close> the step is accepted with a path of probability 4, and \<open>prev_prob_val\<close>
  is 2 afterwards, the best probability of the probe.
\<close>

theorem next_step_prev_prob_val_overwritten:
  "prev_prob_val (demo_state (Fin (3 / 4))) = Fin (3 / 4)
   \<and> fst (next_step late_env (demo_shared (Fin 1)) (demo_state (Fin (3 / 4)))) = False
   \<and> prev_prob_val (snd (next_step late_env (demo_shared (Fin 1)) (demo_state (Fin (3 / 4))))) = Fin 0
   \<and> fst (next_step rising_env (demo_shared (Fin 1)) (demo_state (Fin 1))) = True
   \<and> fst (rand_path_prob rising_env (demo_shared (Fin 1))
             ((demo_state (Fin 2))\<lparr>rng := 100, trials := 100\<rparr>)
             (Point (Fin (2 / pi)) (Fin (2 / pi)) (Fin 0)) (Point (Fin 0) (Fin 1) (Fin 0))) = Fin 4
   \<and> prev_prob_val (snd (next_step rising_env (demo_shared (Fin 1)) (demo_state (Fin 1)))) = Fin 2"
  by (simp add: late_next_fail rising_next rising_candidate) (simp add: demo_state_def)

text \<open>
  C5. When \<open>next\<close> returns true, the new position and direction are those proposed by
  a candidate path evaluated from the current position and direction whose probability
  \<open>val\<close> is greater than \<open>prob_threshold\<close>: \<open>val\<close> is not NaN, is not equal to the
  threshold and is not below it.
\<close>

theorem next_step_accepts_above_threshold:
  assumes "next_step E S st = (True, st')"
  shows "\<exists>s next_pos next_dir val p d s1.
           pos s = pos st \<and> dir s = dir st
           \<and> rand_path_prob E S s next_pos next_dir = (val, p, d, s1)
           \<and> fgreater val (prob_threshold S)
           \<and> \<not> isnan val \<and> val \<noteq> prob_threshold S \<and> \<not> fless val (prob_threshold S)
           \<and> pos st' = p \<and> dir st' = normalise E d"
proof -
  obtain max_val_actual np nd st1 where probe:
    "probe_loop E S 0 (Point NaN NaN NaN) (Point NaN NaN NaN) (Fin 0) st = (max_val_actual, np, nd, st1)"
    by (metis prod_cases4)
  define st2 where "st2 = st1\<lparr>prev_prob_val := max_val_actual\<rparr>"
  have fr: "frame st st1" using probe_loop_frame [OF probe] by simp
  then have fr2: "pos st2 = pos st" "dir st2 = dir st" by (simp_all add: st2_def frame_def)
  obtain mv nmax where run: "sample_loop E S mv 0 nmax np nd st2 = (True, st')"
    using assms probe by (auto simp: next_step_def Let_def st2_def split: if_splits)
  then obtain k s np0 nd0 val p d s1 u r where k: "frame st2 s"
    "rand_path_prob E S s np0 nd0 = (val, p, d, s1)"
    "fgreater val (prob_threshold S)"
    "st' = s1\<lparr>rng := r, dir := normalise E d, pos := p,
                 mean_sample_num := size_add (mean_sample_num s1) k,
                 num_sample_runs := size_add (num_sample_runs s1) 1\<rparr>"
    using sample_loop_accept [OF run] by blast
  have "pos s = pos st \<and> dir s = dir st" using k(1) fr2 by (simp add: frame_def)
  moreover have "pos st' = p \<and> dir st' = normalise E d" using k(4) by simp
  ultimately show ?thesis using k(2,3) fgreater_strict [OF k(3)] by blast
qed

theorem next_step_accepts_above_threshold_witness:
  "next_step uniform_env (demo_shared (Fin 1)) (demo_state (Fin 1))
     = (True, (demo_state (Fin 2))\<lparr>rng := 102, trials := 101, dir := Point (Fin 0) (Fin 1) (Fin 0),
                pos := Point (Fin (2 / pi)) (Fin (2 / pi)) (Fin 0), num_sample_runs := 1\<rparr>)
   \<and> (\<exists>s next_pos next_dir val p d s1.
         rand_path_prob uniform_env (demo_shared (Fin 1)) s next_pos next_dir = (val, p, d, s1)
         \<and> fgreater val (Fin 1) \<and> \<not> isnan val
         \<and> p = Point (Fin (2 / pi)) (Fin (2 / pi)) (Fin 0))"
proof -
  obtain s next_pos next_dir val p d s1 where
    "rand_path_prob uniform_env (demo_shared (Fin 1)) s next_pos next_dir = (val, p, d, s1)"
    "fgreater val (prob_threshold (demo_shared (Fin 1)))" "\<not> isnan val"
    "pos ((demo_state (Fin 2))\<lparr>rng := 102, trials := 101, dir := Point (Fin 0) (Fin 1) (Fin 0),
                pos := Point (Fin (2 / pi)) (Fin (2 / pi)) (Fin 0), num_sample_runs := 1\<rparr>) = p"
    using next_step_accepts_above_threshold [OF uniform_next] by blast
  then have "rand_path_prob uniform_env (demo_shared (Fin 1)) s next_pos next_dir = (val, p, d, s1)
         \<and> fgreater val (Fin 1) \<and> \<not> isnan val
         \<and> p = Point (Fin (2 / pi)) (Fin (2 / pi)) (Fin 0)"
    by (simp add: demo_shared_def demo_state_def)
  then show ?thesis using uniform_next by blast
qed

text \<open>
  C7. \<open>next\<close> evaluates 100 candidate paths in the probe and then at most \<open>nmax\<close> in
  the sampling loop, where \<open>nmax\<close> is 10000 when the probe's \<open>max_val_actual\<close> exceeds
  \<open>prob_threshold\<close> and \<open>max_trials\<close> otherwise. An accepted step has used at least one
  sampling trial; a step that is not accepted has used none (the termination test
  failed) or all \<open>nmax\<close> of them.
\<close>

theorem next_step_trial_budget:
  assumes "probe_loop E S 0 (Point NaN NaN NaN) (Point NaN NaN NaN) (Fin 0) st
             = (max_val_actual, next_pos, next_dir, st1)"
    and "nmax = (if fgreater max_val_actual (prob_threshold S) then 10000 else max_trials S)"
    and "next_step E S st = (accepted, st')"
  shows "trials st1 = trials st + 100
    \<and> trials st' \<le> trials st1 + nmax
    \<and> (accepted \<longrightarrow> trials st1 < trials st')
    \<and> (\<not> accepted \<longrightarrow> trials st' = trials st1 \<or> trials st' = trials st1 + nmax)"
proof -
  define max_val where "max_val = MAX_macro (prev_prob_val st) max_val_actual"
  define st2 where "st2 = st1\<lparr>prev_prob_val := max_val_actual\<rparr>"
  have fr: "frame st st1" and tr: "trials st1 = trials st + 100"
    using probe_loop_frame [OF assms(1)] by simp_all
  have prev: "prev_prob_val st1 = prev_prob_val st" using fr by (simp add: frame_def)
  have t2: "trials st2 = trials st1" by (simp add: st2_def)
  show ?thesis
  proof (cases "isnan max_val \<or> fless max_val (prob_threshold S)")
    case True
    then have "next_step E S st = (False, st2)"
      using assms(1) prev by (simp add: next_step_def Let_def max_val_def st2_def)
    then show ?thesis using assms(3) tr t2 by auto
  next
    case False
    then have run: "sample_loop E S (fmul E max_val (Fin (3 / 2))) 0 nmax next_pos next_dir st2
        = (accepted, st')"
      using assms prev by (simp add: next_step_def Let_def max_val_def st2_def)
    show ?thesis
    proof (cases accepted)
      case False
      then have "trials st' = trials st2 + (nmax - 0)"
        using sample_loop_reject [of E S _ 0 nmax _ _ st2 st'] run by simp
      then show ?thesis using False tr t2 by simp
    next
      case True
      then have "sample_loop E S (fmul E max_val (Fin (3 / 2))) 0 nmax next_pos next_dir st2
          = (True, st')" using run by simp
      from sample_loop_accept [OF this]
      obtain k s np0 nd0 val p d s1 u r where k: "k < nmax" "trials s = trials st2 + (k - 0)"
        "rand_path_prob E S s np0 nd0 = (val, p, d, s1)"
        "st' = s1\<lparr>rng := r, dir := normalise E d, pos := p,
                     mean_sample_num := size_add (mean_sample_num s1) k,
                     num_sample_runs := size_add (num_sample_runs s1) 1\<rparr>"
        by blast
      have "trials s1 = trials s + 1" using rand_path_prob_frame [OF k(3)] by simp
      then have "trials st' = trials st1 + k + 1" using k(2,4) t2 by simp
      then show ?thesis using True tr k(1) by simp
    qed
  qed
qed

text \<open>
  In \<open>late_env\<close> the probe finds nothing, so the budget is \<open>max_trials = 100\<close>; the
  step is accepted at the first sampling trial, after 101 evaluations in all.
\<close>

theorem next_step_trial_budget_witness:
  "\<not> fgreater (Fin 0) (prob_threshold (demo_shared (Fin 1)))
   \<and> max_trials (demo_shared (Fin 1)) = 100
   \<and> fst (next_step late_env (demo_shared (Fin 1)) (demo_state (Fin 1))) = True
   \<and> trials (snd (next_step late_env (demo_shared (Fin 1)) (demo_state (Fin 1)))) = 101
   \<and> trials (snd (next_step late_env (demo_shared (Fin 1)) (demo_state (Fin 1)))) \<le> 100 + 100"
  using next_step_trial_budget [OF late_probe refl late_next_ok]
  unfolding late_next_ok by (simp add: fgreater_def demo_shared_def demo_state_def)


section \<open>Initialisation\<close>

text \<open>
  C8. With a fixed initial direction \<open>d\<close> configured, let \<open>a\<close> be the amplitude of \<open>d\<close>
  at the seed position (NaN where no data can be fetched). \<open>init\<close> returns true exactly
  when \<open>a\<close> is finite and greater than \<open>init_threshold\<close>; it then has set the direction
  to \<open>d\<close> and \<open>prev_prob_val\<close> to \<open>pow (a, num_samples)\<close>. In either case the random
  generator is left as it was and no candidate path is evaluated; when \<open>init\<close> returns
  false \<open>prev_prob_val\<close> is unchanged.
\<close>

theorem init_fixed_direction:
  assumes "init_dir S = Some d"
    and "a = fst (FOD_at E S st (pos st) d)"
  shows "fst (init E S st) = (finite_val a \<and> fgreater a (init_threshold S))
    \<and> rng (snd (init E S st)) = rng st
    \<and> trials (snd (init E S st)) = trials st
    \<and> (fst (init E S st) \<longrightarrow>
          dir (snd (init E S st)) = d
          \<and> prev_prob_val (snd (init E S st)) = fpow E a (num_samples S))
    \<and> (\<not> fst (init E S st) \<longrightarrow> prev_prob_val (snd (init E S st)) = prev_prob_val st)"
  using assms by (auto simp: init_def FOD_at_def FOD_def Let_def split: option.splits)

text \<open>
  The direction \<open>(0, 0, 1)\<close> has the amplitude 2: \<open>init\<close> succeeds with the threshold 1
  and fails with the threshold 2.
\<close>

theorem init_fixed_direction_witness:
  "fst (FOD_at uniform_env ((demo_shared (Fin 1))\<lparr>init_dir := Some (Point (Fin 0) (Fin 0) (Fin 1))\<rparr>)
          (demo_state (Fin 0)) (pos (demo_state (Fin 0))) (Point (Fin 0) (Fin 0) (Fin 1))) = Fin 2
   \<and> fst (init uniform_env ((demo_shared (Fin 1))\<lparr>init_dir := Some (Point (Fin 0) (Fin 0) (Fin 1))\<rparr>)
            (demo_state (Fin 0))) = True
   \<and> prev_prob_val (snd (init uniform_env
            ((demo_shared (Fin 1))\<lparr>init_dir := Some (Point (Fin 0) (Fin 0) (Fin 1))\<rparr>)
            (demo_state (Fin 0)))) = Fin 2
   \<and> fst (init uniform_env ((demo_shared (Fin 2))\<lparr>init_dir := Some (Point (Fin 0) (Fin 0) (Fin 1))\<rparr>)
            (demo_state (Fin 0))) = False"
  using init_fixed_direction [of "(demo_shared (Fin 1))\<lparr>init_dir := Some (Point (Fin 0) (Fin 0) (Fin 1))\<rparr>"
      "Point (Fin 0) (Fin 0) (Fin 1)" "Fin 2" uniform_env "demo_state (Fin 0)"]
    init_fixed_direction [of "(demo_shared (Fin 2))\<lparr>init_dir := Some (Point (Fin 0) (Fin 0) (Fin 1))\<rparr>"
      "Point (Fin 0) (Fin 0) (Fin 1)" "Fin 2" uniform_env "demo_state (Fin 0)"]
  by (simp add: FOD_at_def FOD_def uniform_env_def demo_env_def demo_shared_def demo_state_def
      fgreater_def)


section \<open>The bounds check\<close>

lemma size_add_1_neq: "size_add c 1 \<noteq> c"
proof
  assume h: "size_add c 1 = c"
  then have lt: "c < size_max"
    by (metis size_add_def mod_less_divisor size_max_def zero_less_numeral zero_less_power)
  show False
  proof (cases "c + 1 < size_max")
    case True
    then show False using h by (simp add: size_add_def)
  next
    case False
    then have "c + 1 = size_max" using lt by simp
    then have "size_add c 1 = 0" by (simp add: size_add_def)
    then show False using h \<open>c + 1 = size_max\<close> by (simp add: size_max_def)
  qed
qed

text \<open>
  C10. \<open>BoundsCheck::operator()\<close> writes NaN to the three output components and
  increments its count exactly when the difference of the marker and the input vector
  is much smaller than the tolerance (\<open>isMuchSmallerThan\<close>), or both the marker and the
  input vector have a NaN component. In every other case the three output components
  are the input components and the functor is unchanged.
\<close>

theorem BoundsCheck_call_marks:
  "((snd (BoundsCheck_call isMuchSmallerThan sub B inp) = (NaN, NaN, NaN)
      \<and> count (fst (BoundsCheck_call isMuchSmallerThan sub B inp)) = size_add (count B) 1)
     \<longleftrightarrow> (isMuchSmallerThan (vec_minus sub (vec B) inp) (precision B)
           \<or> (hasNaN (vec B) \<and> hasNaN inp)))
   \<and> (\<not> (isMuchSmallerThan (vec_minus sub (vec B) inp) (precision B)
           \<or> (hasNaN (vec B) \<and> hasNaN inp))
        \<longrightarrow> snd (BoundsCheck_call isMuchSmallerThan sub B inp) = inp
          \<and> fst (BoundsCheck_call isMuchSmallerThan sub B inp) = B)"
  using size_add_1_neq [of "count B"] by (auto simp: BoundsCheck_call_def Let_def)

text \<open>
  With the marker \<open>(0, 0, 0)\<close>, the voxel \<open>(0, 0, 0)\<close> is replaced and counted, the voxel
  \<open>(1, 2, 3)\<close> is copied, and the voxel \<open>(NaN, NaN, NaN)\<close> is copied without being
  counted.
\<close>

theorem BoundsCheck_call_marks_witness:
  "BoundsCheck_call demo_isMuchSmallerThan (exact2 (-))
      \<lparr>precision = Fin (1 / 10 ^ 5), vec = (Fin 0, Fin 0, Fin 0), count = 7\<rparr> (Fin 0, Fin 0, Fin 0)
     = (\<lparr>precision = Fin (1 / 10 ^ 5), vec = (Fin 0, Fin 0, Fin 0), count = 8\<rparr>, (NaN, NaN, NaN))
   \<and> BoundsCheck_call demo_isMuchSmallerThan (exact2 (-))
      \<lparr>precision = Fin (1 / 10 ^ 5), vec = (Fin 0, Fin 0, Fin 0), count = 7\<rparr> (Fin 1, Fin 2, Fin 3)
     = (\<lparr>precision = Fin (1 / 10 ^ 5), vec = (Fin 0, Fin 0, Fin 0), count = 7\<rparr>, (Fin 1, Fin 2, Fin 3))
   \<and> BoundsCheck_call demo_isMuchSmallerThan (exact2 (-))
      \<lparr>precision = Fin (1 / 10 ^ 5), vec = (Fin 0, Fin 0, Fin 0), count = 7\<rparr> (NaN, NaN, NaN)
     = (\<lparr>precision = Fin (1 / 10 ^ 5), vec = (Fin 0, Fin 0, Fin 0), count = 7\<rparr>, (NaN, NaN, NaN))"
  using BoundsCheck_call_marks [of demo_isMuchSmallerThan "exact2 (-)"
      "\<lparr>precision = Fin (1 / 10 ^ 5), vec = (Fin 0, Fin 0, Fin 0), count = 7\<rparr>" "(Fin 0, Fin 0, Fin 0)"]
    BoundsCheck_call_marks [of demo_isMuchSmallerThan "exact2 (-)"
      "\<lparr>precision = Fin (1 / 10 ^ 5), vec = (Fin 0, Fin 0, Fin 0), count = 7\<rparr>" "(Fin 1, Fin 2, Fin 3)"]
  by (simp add: BoundsCheck_call_def size_add_def size_max_def)

end
